theory Spec2Isabelle
  imports Main "HOL-Library.Sublist" "HOL-Library.AList"
begin

section \<open>Python string primitives\<close>

text \<open>
  Strings are ASCII byte strings. The characters Python's \<^verbatim>\<open>str.isspace\<close> accepts
  below 128 are tab, line feed, vertical tab, form feed, carriage return, the four
  separators 0x1C..0x1F and the space.
\<close>

definition whitespace :: "char list" where
  "whitespace = [CHR 0x09, CHR 0x0A, CHR 0x0B, CHR 0x0C, CHR 0x0D,
                 CHR 0x1C, CHR 0x1D, CHR 0x1E, CHR 0x1F, CHR 0x20]"

definition isspace :: "char \<Rightarrow> bool" where
  "isspace c = (c \<in> set whitespace)"

text \<open>\<^verbatim>\<open>s.strip()\<close>: leading and trailing whitespace removed.\<close>

definition strip :: "string \<Rightarrow> string" where
  "strip s = rev (dropWhile isspace (rev (dropWhile isspace s)))"

text \<open>\<^verbatim>\<open>s.lower()\<close> on ASCII letters.\<close>

definition lower_char :: "char \<Rightarrow> char" where
  "lower_char c =
     (case map_of (zip ''ABCDEFGHIJKLMNOPQRSTUVWXYZ'' ''abcdefghijklmnopqrstuvwxyz'') c of
        None \<Rightarrow> c
      | Some d \<Rightarrow> d)"

definition lower :: "string \<Rightarrow> string" where
  "lower s = map lower_char s"

text \<open>\<^verbatim>\<open>s.startswith(p)\<close>, \<^verbatim>\<open>s.endswith(p)\<close> and \<^verbatim>\<open>sub in s\<close>.\<close>

definition startswith :: "string \<Rightarrow> string \<Rightarrow> bool" where
  "startswith s p = prefix p s"

definition endswith :: "string \<Rightarrow> string \<Rightarrow> bool" where
  "endswith s p = suffix p s"

fun contains :: "string \<Rightarrow> string \<Rightarrow> bool" where
  "contains sub [] = (sub = [])"
| "contains sub (c # cs) = (prefix sub (c # cs) \<or> contains sub cs)"

text \<open>
  \<^verbatim>\<open>s.split()\<close> without a separator: the maximal runs of non-whitespace characters.
  The first argument is the run being read, reversed.
\<close>

fun split_ws_aux :: "string \<Rightarrow> string \<Rightarrow> string list" where
  "split_ws_aux cur [] = (if cur = [] then [] else [rev cur])"
| "split_ws_aux cur (c # cs) =
     (if isspace c
      then (if cur = [] then split_ws_aux [] cs else rev cur # split_ws_aux [] cs)
      else split_ws_aux (c # cur) cs)"

definition split_ws :: "string \<Rightarrow> string list" where
  "split_ws s = split_ws_aux [] s"

text \<open>
  \<^verbatim>\<open>s.split(sep)\<close> for a separator string: the text is scanned from the left and cut at
  every occurrence that does not overlap the previous one. Python raises ValueError on
  the empty separator; every separator passed in this program ends in a fixed character,
  and the function returns the uncut string there.
\<close>

function split_sep_aux :: "string \<Rightarrow> string \<Rightarrow> string \<Rightarrow> string list" where
  "split_sep_aux sep cur s =
     (if s = [] \<or> sep = [] then [rev cur @ s]
      else if prefix sep s then rev cur # split_sep_aux sep [] (drop (length sep) s)
      else split_sep_aux sep (hd s # cur) (tl s))"
  by pat_completeness auto
termination
  by (relation "measure (\<lambda>(sep, cur, s). length s)") (auto simp: neq_Nil_conv)

declare split_sep_aux.simps [simp del]

definition split_sep :: "string \<Rightarrow> string \<Rightarrow> string list" where
  "split_sep s sep = split_sep_aux sep [] s"

text \<open>\<^verbatim>\<open>s.partition(c)[::2]\<close> for a one-character separator: the text before the first
  occurrence and the text after it (empty when there is none).\<close>

definition partition02 :: "string \<Rightarrow> char \<Rightarrow> string \<times> string" where
  "partition02 s c = (takeWhile (\<lambda>x. x \<noteq> c) s, drop 1 (dropWhile (\<lambda>x. x \<noteq> c) s))"

section \<open>Python's \<^verbatim>\<open>int(str)\<close>\<close>

text \<open>
  Base-10 integer literals as Python 3 reads them from an ASCII string. The whitespace
  that \<^verbatim>\<open>int\<close> skips around the literal is not the whitespace of \<^verbatim>\<open>str.strip\<close>: it
  is tab, line feed, vertical tab, form feed, carriage return and the space only, so
  that the separators 0x1C..0x1F make the text malformed. One sign is allowed, and the
  digits may be grouped by single underscores. A literal of more than 4300 digits,
  leading zeros counted and underscores not, is refused: this is the interpreter's
  default limit \<^verbatim>\<open>sys.int_info.default_max_str_digits\<close>. Anything else is a
  ValueError, here \<open>None\<close>.
\<close>

definition int_whitespace :: "char list" where
  "int_whitespace = [CHR 0x09, CHR 0x0A, CHR 0x0B, CHR 0x0C, CHR 0x0D, CHR 0x20]"

definition int_isspace :: "char \<Rightarrow> bool" where
  "int_isspace c = (c \<in> set int_whitespace)"

definition int_strip :: "string \<Rightarrow> string" where
  "int_strip s = rev (dropWhile int_isspace (rev (dropWhile int_isspace s)))"

definition int_max_str_digits :: nat where
  "int_max_str_digits = 4300"

definition isdigit :: "char \<Rightarrow> bool" where
  "isdigit c = (c \<in> set ''0123456789'')"

definition digit_val :: "char \<Rightarrow> int" where
  "digit_val c =
     (case map_of (zip ''0123456789'' [0, 1, 2, 3, 4, 5, 6, 7, 8, 9]) c of
        None \<Rightarrow> 0
      | Some d \<Rightarrow> d)"

definition digits_val :: "string \<Rightarrow> int" where
  "digits_val ds = foldl (\<lambda>a c. 10 * a + digit_val c) 0 ds"

fun grouped_digits :: "string \<Rightarrow> bool" where
  "grouped_digits [] = False"
| "grouped_digits [c] = isdigit c"
| "grouped_digits (c # d # cs) =
     (isdigit c \<and> (if d = CHR ''_'' then grouped_digits cs else grouped_digits (d # cs)))"

definition py_int :: "string \<Rightarrow> int option" where
  "py_int s =
     (let t = int_strip s;
          (neg, body) = (case t of
                           [] \<Rightarrow> (False, [])
                         | c # r \<Rightarrow> if c = CHR ''-'' then (True, r)
                                    else if c = CHR ''+'' then (False, r)
                                    else (False, t));
          ds = filter (\<lambda>c. c \<noteq> CHR ''_'') body
      in if grouped_digits body \<and> length ds \<le> int_max_str_digits
         then Some ((if neg then - 1 else 1) * digits_val ds)
         else None)"

section \<open>Python values\<close>

text \<open>
  The values that settings, statistics and decoded JSON hold. Floating-point numbers are
  left out.
\<close>

datatype pyval =
    PNone
  | PBool bool
  | PInt int
  | PStr string
  | PDict "(string \<times> pyval) list"
  | PList "pyval list"

section \<open>Exceptions\<close>

text \<open>
  The exceptions of the interpreter that the modelled code can raise, and the program's
  own exception objects. An exception of the script \<^verbatim>\<open>ugrstoragestats.py\<close> is its class,
  its \<^verbatim>\<open>message\<close> and its \<^verbatim>\<open>debug\<close> attribute. The classes of the package's module
  \<^verbatim>\<open>exceptions\<close> are not among the source files: such an exception is the class name
  applied to the arguments the raising code passes, in the order of the call.
  \<open>Foreign\<close> is an exception of a client library that the code lets through, by the
  name of its class.
\<close>

datatype ugr_class =
    UGRConfigFileErrorMissingRequiredOption
  | UGRConfigFileErrorInvalidOption
  | UGRConfigFileErrorIDMismatch
  | UGRUnsupportedPluginError
  | UGRConfigFileWarningMissingOption
  | UGRStorageStatsConnectionError
  | UGRStorageStatsConnectionErrorS3API
  | UGRStorageStatsErrorS3MissingBucketUsage
  | UGRStorageStatsErrorDAVQuotaMethod
  | UGRStorageStatsConnectionErrorDAVCertPath
  | UGRStorageStatsQuotaWarning
  | UGRStorageStatsCephS3QuotaDisabledWarning

datatype exn =
    ValueError
  | KeyError string
  | TypeError
  | IndexError
  | AttributeError
  | UnboundLocalError string
  | SystemExit
  | UGR ugr_class string pyval
  | DSSConfigFileErrorIDMismatch (storage_share: string) (error: string) (line_number: nat)
      (config_file: string) (line: string)
  | ErrorDAVQuotaMethod string
  | DAVZeroQuotaWarning string
  | DSSConnectionError string string string
  | DSSErrorAzureContainerNotFound string string string string
  | DSSConnectionErrorAzureAPI string string string string
  | XMLSyntaxError
  | Foreign string

section \<open>\<^verbatim>\<open>convert_size_to_bytes\<close>\<close>

text \<open>The table \<^verbatim>\<open>multipliers\<close>, in the order the dictionary literal lists it.\<close>

definition multipliers :: "(string \<times> int) list" where
  "multipliers =
     [(''kib'', 1024), (''mib'', 1024 ^ 2), (''gib'', 1024 ^ 3), (''tib'', 1024 ^ 4),
      (''pib'', 1024 ^ 5),
      (''kb'', 1000), (''mb'', 1000 ^ 2), (''gb'', 1000 ^ 3), (''tb'', 1000 ^ 4),
      (''pb'', 1000 ^ 5)]"

text \<open>\<^verbatim>\<open>int(x)\<close> where a ValueError is not caught.\<close>

definition int_or_raise :: "string \<Rightarrow> exn + int" where
  "int_or_raise s = (case py_int s of None \<Rightarrow> Inl ValueError | Some v \<Rightarrow> Inr v)"

text \<open>
  The \<^verbatim>\<open>for suffix in multipliers\<close> loop over a given iteration order: the first suffix
  that ends the lower-cased text decides, and \<open>None\<close> means that the loop ran to its end.
\<close>

fun suffix_loop :: "(string \<times> int) list \<Rightarrow> string \<Rightarrow> (exn + int) option" where
  "suffix_loop [] sz = None"
| "suffix_loop ((sfx, m) # rest) sz =
     (if endswith (lower sz) sfx
      then Some (case int_or_raise (take (length sz - length sfx) sz) of
                   Inl e \<Rightarrow> Inl e
                 | Inr v \<Rightarrow> Inr (v * m))
      else suffix_loop rest sz)"

definition convert_size_to_bytes_in :: "(string \<times> int) list \<Rightarrow> string \<Rightarrow> exn + int" where
  "convert_size_to_bytes_in table sz =
     (case suffix_loop table sz of
        Some r \<Rightarrow> r
      | None \<Rightarrow>
          if endswith (lower sz) ''b''
          then int_or_raise (take (length sz - 1) sz)
          else (case py_int sz of
                  Some v \<Rightarrow> Inr v
                | None \<Rightarrow> Inl SystemExit))"

definition convert_size_to_bytes :: "string \<Rightarrow> exn + int" where
  "convert_size_to_bytes sz = convert_size_to_bytes_in multipliers sz"

section \<open>Dictionaries\<close>

text \<open>
  A dictionary is an association list with distinct keys, in insertion order.
  \<^verbatim>\<open>d[k] = v\<close> and \<^verbatim>\<open>d.update({k: v})\<close> are \<^const>\<open>AList.update\<close>: the value is replaced
  in place, or the pair is added at the end. \<^verbatim>\<open>d.setdefault(k, v)\<close> adds the pair
  only when the key is absent, and a change of the object stored under a key leaves the
  order alone.
\<close>

definition dict_setdefault :: "'k \<Rightarrow> 'v \<Rightarrow> ('k \<times> 'v) list \<Rightarrow> ('k \<times> 'v) list" where
  "dict_setdefault k v d = (case map_of d k of None \<Rightarrow> d @ [(k, v)] | Some _ \<Rightarrow> d)"

definition dict_modify :: "'k \<Rightarrow> ('v \<Rightarrow> 'v) \<Rightarrow> ('k \<times> 'v) list \<Rightarrow> ('k \<times> 'v) list" where
  "dict_modify k f d = map (\<lambda>(k', v). if k' = k then (k', f v) else (k', v)) d"

section \<open>\<^verbatim>\<open>configloader.parse_conf_files\<close>\<close>

text \<open>
  The dictionary the parser keeps for one share has the keys \<^verbatim>\<open>id\<close>, \<^verbatim>\<open>url\<close>,
  \<^verbatim>\<open>plugin\<close> and \<^verbatim>\<open>plugin_settings\<close>; \<open>None\<close> is an absent key.
\<close>

record share_cfg =
  cfg_id :: "string option"
  cfg_url :: "string option"
  cfg_plugin :: "string option"
  cfg_plugin_settings :: "(string \<times> string) list option"

definition empty_cfg :: share_cfg where
  "empty_cfg = \<lparr>cfg_id = None, cfg_url = None, cfg_plugin = None, cfg_plugin_settings = None\<rparr>"

text \<open>
  The local variables of the scan: \<^verbatim>\<open>_storage_shares\<close>, \<^verbatim>\<open>_global_settings\<close> and
  \<^verbatim>\<open>_id\<close>, which is unbound (\<open>None\<close>) until the first declaration line assigns it and
  is never reset, not even at the start of the next file.
\<close>

record scan_state =
  storage_shares :: "(string \<times> share_cfg) list"
  global_settings :: "(string \<times> string) list"
  cur_id :: "string option"

definition init_state :: scan_state where
  "init_state = \<lparr>storage_shares = [], global_settings = [], cur_id = None\<rparr>"

definition declare_share :: "string \<Rightarrow> string \<Rightarrow> string \<Rightarrow> scan_state \<Rightarrow> scan_state" where
  "declare_share plugin ident url st =
     st\<lparr>storage_shares :=
          dict_modify ident
            (\<lambda>c. c\<lparr>cfg_id := Some (strip ident), cfg_url := Some (strip url),
                   cfg_plugin := Some (last (split_sep plugin ''/''))\<rparr>)
            (dict_setdefault ident empty_cfg (storage_shares st)),
        cur_id := Some ident\<rparr>"

definition set_local :: "string \<Rightarrow> string \<Rightarrow> string \<Rightarrow> scan_state \<Rightarrow> scan_state" where
  "set_local ident setting val st =
     st\<lparr>storage_shares :=
          dict_modify ident
            (\<lambda>c. c\<lparr>cfg_plugin_settings :=
                     Some (AList.update setting val
                             (case cfg_plugin_settings c of None \<Rightarrow> [] | Some ps \<Rightarrow> ps))\<rparr>)
            (dict_setdefault ident empty_cfg (storage_shares st))\<rparr>"

text \<open>
  The body of the loop over the lines of one file. \<open>fname\<close> is \<^verbatim>\<open>_config_file\<close> and
  \<open>n\<close> is \<^verbatim>\<open>_line_number\<close>, the index \<^verbatim>\<open>enumerate\<close> gives the line.
\<close>

definition process_line :: "string \<Rightarrow> nat \<Rightarrow> string \<Rightarrow> scan_state \<Rightarrow> exn + scan_state" where
  "process_line fname n raw st =
     (let ln = strip raw in
      if startswith ln ''#'' then Inr st
      else if contains ''glb.locplugin[]'' ln then
        (case drop 1 (split_ws ln) of
           [plugin, ident, concurrency, url] \<Rightarrow> Inr (declare_share plugin ident url st)
         | _ \<Rightarrow> Inl ValueError)
      else if contains ''locplugin'' ln then
        (let (key, val) = partition02 ln (CHR '':'');
             segs = split_sep key ''.''
         in if length segs < 2 then Inl IndexError
            else let locid = segs ! 1 in
              if locid = ''*'' then
                Inr (st\<lparr>global_settings :=
                          AList.update (last (split_sep key ''*.'')) (strip val)
                            (global_settings st)\<rparr>)
              else (case cur_id st of
                      None \<Rightarrow> Inl (UnboundLocalError ''_id'')
                    | Some ident \<Rightarrow>
                        if ident = locid then
                          Inr (set_local ident (last (split_sep key (ident @ ''.''))) (strip val) st)
                        else
                          Inl (DSSConfigFileErrorIDMismatch ident ''SettingIDMismatch'' n fname
                                 (hd (split_sep ln '':'')))))
      else Inr st)"

fun scan_lines :: "string \<Rightarrow> nat \<Rightarrow> string list \<Rightarrow> scan_state \<Rightarrow> exn + scan_state" where
  "scan_lines fname n [] st = Inr st"
| "scan_lines fname n (l # ls) st =
     (case process_line fname n l st of
        Inl e \<Rightarrow> Inl e
      | Inr st' \<Rightarrow> scan_lines fname (Suc n) ls st')"

text \<open>A configuration file is its name and its lines, as iterating the open file gives them.\<close>

fun scan_files :: "(string \<times> string list) list \<Rightarrow> scan_state \<Rightarrow> exn + scan_state" where
  "scan_files [] st = Inr st"
| "scan_files ((fname, ls) # fs) st =
     (case scan_lines fname 0 ls st of
        Inl e \<Rightarrow> Inl e
      | Inr st' \<Rightarrow> scan_files fs st')"

text \<open>
  The loops after the scan: for every global setting, for every share, the setting is
  stored unless \<^verbatim>\<open>plugin_settings\<close> of the share has the key. A share without the key
  \<^verbatim>\<open>plugin_settings\<close> makes the lookup a KeyError.
\<close>

definition fill_share :: "string \<Rightarrow> string \<Rightarrow> share_cfg \<Rightarrow> exn + share_cfg" where
  "fill_share setting val c =
     (case cfg_plugin_settings c of
        None \<Rightarrow> Inl (KeyError ''plugin_settings'')
      | Some ps \<Rightarrow>
          (case map_of ps setting of
             None \<Rightarrow> Inr (c\<lparr>cfg_plugin_settings := Some (AList.update setting val ps)\<rparr>)
           | Some _ \<Rightarrow> Inr c))"

fun fill_shares :: "string \<Rightarrow> string \<Rightarrow> (string \<times> share_cfg) list \<Rightarrow>
    exn + (string \<times> share_cfg) list" where
  "fill_shares setting val [] = Inr []"
| "fill_shares setting val ((k, c) # rest) =
     (case fill_share setting val c of
        Inl e \<Rightarrow> Inl e
      | Inr c' \<Rightarrow> (case fill_shares setting val rest of
                     Inl e \<Rightarrow> Inl e
                   | Inr rest' \<Rightarrow> Inr ((k, c') # rest')))"

fun apply_globals :: "(string \<times> string) list \<Rightarrow> (string \<times> share_cfg) list \<Rightarrow>
    exn + (string \<times> share_cfg) list" where
  "apply_globals [] shares = Inr shares"
| "apply_globals ((setting, val) # gs) shares =
     (case fill_shares setting val shares of
        Inl e \<Rightarrow> Inl e
      | Inr shares' \<Rightarrow> apply_globals gs shares')"

definition parse_conf_files :: "(string \<times> string list) list \<Rightarrow> exn + (string \<times> share_cfg) list" where
  "parse_conf_files config_files =
     (case scan_files config_files init_state of
        Inl e \<Rightarrow> Inl e
      | Inr st \<Rightarrow> apply_globals (global_settings st) (storage_shares st))"

text \<open>
  The kinds of line the scan tells apart, by the tests of the loop body in their order.
  \<open>locid_of\<close> is \<^verbatim>\<open>_key.split('.')[1]\<close>, the ID segment of a setting line, when the key
  has one.
\<close>

definition is_comment :: "string \<Rightarrow> bool" where
  "is_comment raw = startswith (strip raw) ''#''"

definition is_declaration :: "string \<Rightarrow> bool" where
  "is_declaration raw = (\<not> is_comment raw \<and> contains ''glb.locplugin[]'' (strip raw))"

definition is_setting :: "string \<Rightarrow> bool" where
  "is_setting raw =
     (\<not> is_comment raw \<and> \<not> contains ''glb.locplugin[]'' (strip raw) \<and>
      contains ''locplugin'' (strip raw))"

definition locid_of :: "string \<Rightarrow> string option" where
  "locid_of raw =
     (let segs = split_sep (fst (partition02 (strip raw) (CHR '':''))) ''.''
      in if length segs < 2 then None else Some (segs ! 1))"

definition is_global_setting :: "string \<Rightarrow> bool" where
  "is_global_setting raw = (is_setting raw \<and> locid_of raw = Some ''*'')"

definition is_local_setting :: "string \<Rightarrow> bool" where
  "is_local_setting raw =
     (is_setting raw \<and> (case locid_of raw of None \<Rightarrow> False | Some i \<Rightarrow> i \<noteq> ''*''))"

text \<open>Lines that neither declare a share nor name one: comments, lines without the
  setting marker, and global settings.\<close>

definition is_inert :: "string \<Rightarrow> bool" where
  "is_inert raw =
     (is_comment raw \<or> \<not> contains ''locplugin'' (strip raw) \<or> is_global_setting raw)"

definition is_id_mismatch :: "exn \<Rightarrow> bool" where
  "is_id_mismatch e = (case e of DSSConfigFileErrorIDMismatch _ _ _ _ _ \<Rightarrow> True | _ \<Rightarrow> False)"

section \<open>Operations on Python values\<close>

text \<open>\<^verbatim>\<open>int(v)\<close>, the truth value of \<^verbatim>\<open>v\<close>, and \<^verbatim>\<open>a - b\<close>.\<close>

fun py_int_of :: "pyval \<Rightarrow> exn + int" where
  "py_int_of (PInt n) = Inr n"
| "py_int_of (PBool b) = Inr (if b then 1 else 0)"
| "py_int_of (PStr s) = int_or_raise s"
| "py_int_of _ = Inl TypeError"

fun truthy :: "pyval \<Rightarrow> bool" where
  "truthy PNone = False"
| "truthy (PBool b) = b"
| "truthy (PInt n) = (n \<noteq> 0)"
| "truthy (PStr s) = (s \<noteq> [])"
| "truthy (PDict d) = (d \<noteq> [])"
| "truthy (PList l) = (l \<noteq> [])"

fun py_sub :: "pyval \<Rightarrow> pyval \<Rightarrow> exn + pyval" where
  "py_sub (PInt a) (PInt b) = Inr (PInt (a - b))"
| "py_sub (PInt a) (PBool b) = Inr (PInt (a - (if b then 1 else 0)))"
| "py_sub (PBool a) (PInt b) = Inr (PInt ((if a then 1 else 0) - b))"
| "py_sub (PBool a) (PBool b) = Inr (PInt ((if a then 1 else 0) - (if b then 1 else 0)))"
| "py_sub _ _ = Inl TypeError"

text \<open>\<^verbatim>\<open>d[k]\<close> on a dictionary of settings.\<close>

definition getitem :: "(string \<times> 'v) list \<Rightarrow> string \<Rightarrow> exn + 'v" where
  "getitem d k = (case map_of d k of None \<Rightarrow> Inl (KeyError k) | Some v \<Rightarrow> Inr v)"

section \<open>The package's share object and its DAV and Azure helpers\<close>

text \<open>
  The attributes of a \<^verbatim>\<open>StorageShare\<close> that the helpers read and write. The class itself
  (module \<^verbatim>\<open>base\<close>) is not among the source files; the helpers only use the dictionaries
  \<^verbatim>\<open>plugin_settings\<close> and \<^verbatim>\<open>stats\<close>.
\<close>

record dss_stats =
  bytesused :: pyval
  bytesfree :: pyval
  filecount :: pyval
  quota :: pyval
  starttime :: int
  endtime :: int

record dss_share =
  share_id :: string
  plugin_settings :: "(string \<times> pyval) list"
  stats :: dss_stats

text \<open>
  What the helpers look at in the body of a DAV response, once parsed: for each of the
  two quota elements whether \<^verbatim>\<open>find\<close> returns an element (\<open>None\<close> when there is none)
  and the element's \<^verbatim>\<open>text\<close> (\<open>None\<close> for an element without text). A body that is not
  well-formed XML has no parse. \<open>body\<close> is \<^verbatim>\<open>str(response.content)\<close>.
\<close>

record dav_xml =
  quota_available_bytes :: "string option option"
  quota_used_bytes :: "string option option"

record dav_response =
  body :: string
  parsed :: "dav_xml option"

text \<open>\<^verbatim>\<open>int(element.text)\<close>: the text \<^verbatim>\<open>None\<close> is a TypeError.\<close>

definition int_of_text :: "string option \<Rightarrow> exn + int" where
  "int_of_text t = (case t of None \<Rightarrow> Inl TypeError | Some s \<Rightarrow> int_or_raise s)"

text \<open>
  \<^verbatim>\<open>xml.process_rfc4331_response\<close>. The result is the exception raised, if any, and the
  share as the function leaves it: what was assigned before a raise stays assigned.
\<close>

definition process_rfc4331_response :: "dav_response \<Rightarrow> dss_share \<Rightarrow> exn option \<times> dss_share" where
  "process_rfc4331_response response sh =
     (case parsed response of
        None \<Rightarrow> (Some XMLSyntaxError, sh)
      | Some tree \<Rightarrow>
     (case quota_available_bytes tree of
        None \<Rightarrow> (Some AttributeError, sh)
      | Some node \<Rightarrow>
     if node = None then (Some (ErrorDAVQuotaMethod ''UnsupportedMethod''), sh)
     else
     (case quota_used_bytes tree of
        None \<Rightarrow> (Some AttributeError, sh)
      | Some used_text \<Rightarrow>
     (case int_of_text used_text of
        Inl e \<Rightarrow> (Some e, sh)
      | Inr used \<Rightarrow>
     let sh1 = sh\<lparr>stats := (stats sh)\<lparr>bytesused := PInt used\<rparr>\<rparr> in
     (case int_of_text node of
        Inl e \<Rightarrow> (Some e, sh1)
      | Inr free \<Rightarrow>
     let sh2 = sh1\<lparr>stats := (stats sh1)\<lparr>bytesfree := PInt free\<rparr>\<rparr> in
     (case getitem (plugin_settings sh2) ''storagestats.quota'' of
        Inl e \<Rightarrow> (Some e, sh2)
      | Inr setting \<Rightarrow>
     if setting = PStr ''api'' then
       (let sh3 = sh2\<lparr>stats := (stats sh2)\<lparr>quota := PInt (used + free)\<rparr>\<rparr>
        in if free = 0 then (Some (DAVZeroQuotaWarning (body response)), sh3) else (None, sh3))
     else
     (case py_int_of setting of
        Inl e \<Rightarrow> (Some e, sh2)
      | Inr q \<Rightarrow>
          (None, sh2\<lparr>stats := (stats sh2)\<lparr>quota := PInt q, bytesfree := PInt (q - used)\<rparr>\<rparr>))))))))"

text \<open>
  \<^verbatim>\<open>azure.helpers.list_blobs\<close>. The call of the Azure client is the parameter
  \<open>service\<close>: it raises one of the three exceptions of \<^verbatim>\<open>azure.common\<close> the code
  handles, from the most specific to the base class, or another exception, or it
  returns the blobs, here their \<^verbatim>\<open>content_length\<close>. The entries \<^verbatim>\<open>account\<close>,
  \<^verbatim>\<open>container\<close> and \<^verbatim>\<open>url\<close> of \<^verbatim>\<open>uri\<close> are set by the constructor and only reach
  the client and the log.
\<close>

datatype azure_result =
    AzureMissingResourceHttpError string
  | AzureHttpError string
  | AzureException string
  | AzureOther exn
  | Blobs "int list"

definition list_blobs :: "(dss_share \<Rightarrow> azure_result) \<Rightarrow> string \<Rightarrow> dss_share \<Rightarrow> exn option \<times> dss_share" where
  "list_blobs service container sh =
     (case getitem (plugin_settings sh) ''azure.key'' of
        Inl e \<Rightarrow> (Some e, sh)
      | Inr key \<Rightarrow>
     (case getitem (plugin_settings sh) ''storagestats.api'' of
        Inl e \<Rightarrow> (Some e, sh)
      | Inr api \<Rightarrow>
     (case api of
        PStr api_name \<Rightarrow>
     (case getitem (plugin_settings sh) ''conn_timeout'' of
        Inl e \<Rightarrow> (Some e, sh)
      | Inr timeout \<Rightarrow>
     (case py_int_of timeout of
        Inl e \<Rightarrow> (Some e, sh)
      | Inr _ \<Rightarrow>
     (case service sh of
        AzureMissingResourceHttpError msg \<Rightarrow>
          (Some (DSSErrorAzureContainerNotFound ''ContainerNotFound'' ''404'' msg container), sh)
      | AzureHttpError msg \<Rightarrow>
          (Some (DSSConnectionErrorAzureAPI ''ConnectionError'' ''400'' msg api_name), sh)
      | AzureException msg \<Rightarrow>
          (Some (DSSConnectionError ''ConnectionError'' ''400'' msg), sh)
      | AzureOther e \<Rightarrow> (Some e, sh)
      | Blobs lengths \<Rightarrow>
          (let total_bytes = sum_list lengths;
               total_files = int (length lengths);
               sh1 = sh\<lparr>stats := (stats sh)\<lparr>bytesused := PInt total_bytes\<rparr>\<rparr>
           in case getitem (plugin_settings sh1) ''storagestats.quota'' of
                Inl e \<Rightarrow> (Some e, sh1)
              | Inr q \<Rightarrow>
                  (let sh2 = sh1\<lparr>stats := (stats sh1)\<lparr>quota := q\<rparr>\<rparr>
                   in case py_sub q (PInt total_bytes) of
                        Inl e \<Rightarrow> (Some e, sh2)
                      | Inr free \<Rightarrow>
                          (None, sh2\<lparr>stats := (stats sh2)\<lparr>bytesfree := free,
                                                          filecount := PInt total_files\<rparr>\<rparr>))))))
      | _ \<Rightarrow> (Some AttributeError, sh))))"

section \<open>The script \<^verbatim>\<open>ugrstoragestats.py\<close>: exceptions\<close>

text \<open>
  The class tests of the \<^verbatim>\<open>except\<close> clauses, from the class hierarchy: the four
  configuration errors and the five storage errors are \<^verbatim>\<open>UGRBaseError\<close>s, the
  missing-option warning and the two quota warnings are \<^verbatim>\<open>UGRBaseWarning\<close>s.
\<close>

definition is_UGRConfigFileError :: "exn \<Rightarrow> bool" where
  "is_UGRConfigFileError e =
     (case e of
        UGR c _ _ \<Rightarrow> c \<in> set [UGRConfigFileErrorMissingRequiredOption,
                                UGRConfigFileErrorInvalidOption, UGRConfigFileErrorIDMismatch,
                                UGRUnsupportedPluginError]
      | _ \<Rightarrow> False)"

definition is_UGRUnsupportedPluginError :: "exn \<Rightarrow> bool" where
  "is_UGRUnsupportedPluginError e =
     (case e of UGR c _ _ \<Rightarrow> c = UGRUnsupportedPluginError | _ \<Rightarrow> False)"

definition is_UGRStorageStatsError :: "exn \<Rightarrow> bool" where
  "is_UGRStorageStatsError e =
     (case e of
        UGR c _ _ \<Rightarrow> c \<in> set [UGRStorageStatsConnectionError,
                                UGRStorageStatsConnectionErrorS3API,
                                UGRStorageStatsErrorS3MissingBucketUsage,
                                UGRStorageStatsErrorDAVQuotaMethod,
                                UGRStorageStatsConnectionErrorDAVCertPath]
      | _ \<Rightarrow> False)"

definition is_UGRStorageStatsWarning :: "exn \<Rightarrow> bool" where
  "is_UGRStorageStatsWarning e =
     (case e of
        UGR c _ _ \<Rightarrow> c \<in> set [UGRStorageStatsQuotaWarning,
                                UGRStorageStatsCephS3QuotaDisabledWarning]
      | _ \<Rightarrow> False)"

definition is_UGRBaseWarning :: "exn \<Rightarrow> bool" where
  "is_UGRBaseWarning e =
     (case e of
        UGR c _ _ \<Rightarrow> c = UGRConfigFileWarningMissingOption \<or> is_UGRStorageStatsWarning e
      | _ \<Rightarrow> False)"

text \<open>The attributes \<^verbatim>\<open>message\<close> and \<^verbatim>\<open>debug\<close>, read only in handlers of the script's
  own classes.\<close>

definition exn_message :: "exn \<Rightarrow> string" where
  "exn_message e = (case e of UGR _ m _ \<Rightarrow> m | _ \<Rightarrow> [])"

definition exn_debug :: "exn \<Rightarrow> pyval" where
  "exn_debug e = (case e of UGR _ _ d \<Rightarrow> d | _ \<Rightarrow> PNone)"

text \<open>
  The chain of \<^verbatim>\<open>__init__\<close> methods of an error: the leaf class formats the message,
  \<^verbatim>\<open>UGRBaseError\<close> puts "[ERROR]" in front of it, and \<^verbatim>\<open>UGRBaseException\<close> makes the
  message the \<^verbatim>\<open>debug\<close> attribute when no \<^verbatim>\<open>debug\<close> was given. A warning is the same
  with "[WARN]".
\<close>

definition ugr_error :: "ugr_class \<Rightarrow> string \<Rightarrow> pyval \<Rightarrow> exn" where
  "ugr_error c msg dbg =
     (let m = ''[ERROR]'' @ msg in UGR c m (if dbg = PNone then PStr m else dbg))"

definition ugr_warning :: "ugr_class \<Rightarrow> string \<Rightarrow> pyval \<Rightarrow> exn" where
  "ugr_warning c msg dbg =
     (let m = ''[WARN]'' @ msg in UGR c m (if dbg = PNone then PStr m else dbg))"

text \<open>The code tag \<^verbatim>\<open>'[%s][%s] '\<close> of a message and the double quote character.\<close>

definition tag :: "string \<Rightarrow> string \<Rightarrow> string" where
  "tag err status_code = ''['' @ err @ ''][''  @ status_code @ ''] ''"

definition dq :: string where
  "dq = [CHR 0x22]"

text \<open>\<^verbatim>\<open>'%s' % v\<close> for the values a default can be: a string, a truth value, a number or
  \<^verbatim>\<open>None\<close>. The text of a container is not modelled; no default is one.\<close>

function nat_str :: "nat \<Rightarrow> string" where
  "nat_str n = (if n < 10 then [''0123456789'' ! n] else nat_str (n div 10) @ [''0123456789'' ! (n mod 10)])"
  by pat_completeness auto
termination
  by (relation "measure id") auto

declare nat_str.simps [simp del]

fun py_str :: "pyval \<Rightarrow> string" where
  "py_str (PStr s) = s"
| "py_str (PBool b) = (if b then ''True'' else ''False'')"
| "py_str (PInt n) = (if n < 0 then ''-'' @ nat_str (nat (- n)) else nat_str (nat n))"
| "py_str PNone = ''None''"
| "py_str _ = []"

definition missing_required_option :: "string \<Rightarrow> exn" where
  "missing_required_option option =
     ugr_error UGRConfigFileErrorMissingRequiredOption
       (tag ''MissingRequiredOption'' ''000'' @ dq @ option @ dq @
          '' is required. Check your configuration.'') PNone"

definition warning_missing_option :: "string \<Rightarrow> pyval \<Rightarrow> exn" where
  "warning_missing_option option option_default =
     ugr_warning UGRConfigFileWarningMissingOption
       (tag ''MissingOption'' ''000'' @ ''Unspecified '' @ dq @ option @ dq @
          '' option. Using default value '' @ dq @ py_str option_default @ dq) PNone"

definition unsupported_plugin_error :: "string \<Rightarrow> exn" where
  "unsupported_plugin_error plugin =
     ugr_error UGRUnsupportedPluginError
       (tag ''UnsupportedPlugin'' ''000'' @ ''StorageStats method for '' @ dq @ plugin @ dq @
          '' not implemented yet.'') PNone"

definition connection_error :: "string \<Rightarrow> string \<Rightarrow> pyval \<Rightarrow> exn" where
  "connection_error err status_code dbg =
     ugr_error UGRStorageStatsConnectionError
       (tag err status_code @ ''Failed to establish a connection.'') dbg"

definition s3api_error :: "string \<Rightarrow> string \<Rightarrow> string \<Rightarrow> pyval \<Rightarrow> exn" where
  "s3api_error err status_code api dbg =
     ugr_error UGRStorageStatsConnectionErrorS3API
       (tag err status_code @ ''Error requesting stats using API '' @ dq @ api @ dq @ ''.'') dbg"

definition missing_bucket_usage :: "string \<Rightarrow> string \<Rightarrow> pyval \<Rightarrow> exn" where
  "missing_bucket_usage err status_code dbg =
     ugr_error UGRStorageStatsErrorS3MissingBucketUsage
       (tag err status_code @ ''Failed to get bucket usage information.'') dbg"

definition dav_quota_method_error :: "string \<Rightarrow> exn" where
  "dav_quota_method_error err =
     ugr_error UGRStorageStatsErrorDAVQuotaMethod (tag err ''000'' @ ''WebDAV Quota Method.'') PNone"

definition dav_cert_path_error :: "string \<Rightarrow> string \<Rightarrow> string \<Rightarrow> pyval \<Rightarrow> exn" where
  "dav_cert_path_error err status_code certfile dbg =
     ugr_error UGRStorageStatsConnectionErrorDAVCertPath
       (tag err status_code @ ''Invalid client certificate path '' @ dq @ certfile @ dq @ ''.'') dbg"

definition quota_warning :: exn where
  "quota_warning =
     ugr_warning UGRStorageStatsQuotaWarning
       (tag ''NoQuotaGiven'' ''000'' @
          ''No quota obtained from API or configuration file. Using default of 1TB'') PNone"

definition quota_disabled_warning :: exn where
  "quota_disabled_warning =
     ugr_warning UGRStorageStatsCephS3QuotaDisabledWarning
       (tag ''BucketQuotaDisabled'' ''000'' @ ''Bucket quota is disabled. Using default of 1TB'')
       PNone"

section \<open>The script: endpoint objects and the validation of their options\<close>

text \<open>
  A rule of \<^verbatim>\<open>self.validators\<close>: the key \<^verbatim>\<open>required\<close>, and the optional keys
  \<^verbatim>\<open>default\<close>, \<^verbatim>\<open>valid\<close> and \<^verbatim>\<open>boolean\<close> (\<open>None\<close> when absent).
\<close>

record validator =
  v_required :: bool
  v_default :: "pyval option"
  v_valid :: "string list option"
  v_boolean :: "bool option"

text \<open>What \<^verbatim>\<open>urlsplit\<close> returns, and the dictionary \<^verbatim>\<open>uri\<close> of an object.\<close>

record url_parts =
  url_scheme :: string
  url_netloc :: string
  url_path :: string
  url_hostname :: "string option"
  url_port :: "int option"

record ugr_uri =
  uri_hostname :: "string option"
  uri_netloc :: string
  uri_path :: string
  uri_port :: "int option"
  uri_scheme :: string
  uri_url :: string
  uri_bucket :: "string option"
  uri_domain :: "string option"

record ugr_stats =
  s_bytesused :: pyval
  s_bytesfree :: pyval
  s_files :: pyval
  s_quota :: pyval
  s_timestamp :: int

datatype py_class = StorageStats | S3StorageStats | DAVStorageStats

text \<open>
  An object of class \<^verbatim>\<open>StorageStats\<close> or of one of its two subclasses. The attribute
  \<^verbatim>\<open>storageprotocol\<close> exists only on the subclasses.
\<close>

record ugr_obj =
  o_class :: py_class
  o_stats :: ugr_stats
  o_id :: string
  o_plugin_options :: "(string \<times> pyval) list"
  o_plugin :: string
  o_uri :: ugr_uri
  o_debug :: "pyval list"
  o_status :: string
  o_validators :: "(string \<times> validator) list"
  o_storageprotocol :: "string option"

text \<open>\<^verbatim>\<open>v.lower()\<close> on a value: only a string has the method.\<close>

definition py_lower :: "pyval \<Rightarrow> exn + string" where
  "py_lower v = (case v of PStr s \<Rightarrow> Inr (lower s) | _ \<Rightarrow> Inl AttributeError)"

text \<open>
  \<^verbatim>\<open>validate_schema\<close>, which the constructor of the base class calls on the object
  under construction: the method of \<^verbatim>\<open>S3StorageStats\<close> overrides the one of the base
  class and reads the option \<^verbatim>\<open>ssl_check\<close>.
\<close>

definition validate_schema :: "py_class \<Rightarrow> (string \<times> pyval) list \<Rightarrow> string \<Rightarrow> exn + string" where
  "validate_schema c opts scheme =
     (if c = S3StorageStats then
        (if scheme = ''s3'' then
           (case getitem opts ''ssl_check'' of
              Inl e \<Rightarrow> Inl e
            | Inr v \<Rightarrow> Inr (if truthy v then ''https'' else ''http''))
         else Inr scheme)
      else (case map_of [(''dav'', ''http''), (''davs'', ''https'')] scheme of
              Some t \<Rightarrow> Inr t
            | None \<Rightarrow> Inr scheme))"

text \<open>
  \<^verbatim>\<open>StorageStats.__init__\<close> for an object of class \<open>c\<close>. The record of the
  configuration is the one \<^verbatim>\<open>get_config\<close> builds, whose key for the settings is
  \<^verbatim>\<open>plugin_options\<close>. \<open>split\<close> is \<^verbatim>\<open>urlsplit\<close> and \<open>now\<close> is \<^verbatim>\<open>int(time.time())\<close>.
\<close>

definition base_validators :: "(string \<times> validator) list" where
  "base_validators =
     [(''quota'', \<lparr>v_required = False, v_default = Some (PStr ''api''), v_valid = None,
                   v_boolean = None\<rparr>),
      (''ssl_check'', \<lparr>v_required = False, v_default = Some (PBool True),
                       v_valid = Some [''true'', ''false'', ''yes'', ''no''],
                       v_boolean = Some True\<rparr>)]"

definition opt_or_keyerror :: "'a option \<Rightarrow> string \<Rightarrow> exn + 'a" where
  "opt_or_keyerror v k = (case v of None \<Rightarrow> Inl (KeyError k) | Some x \<Rightarrow> Inr x)"

definition StorageStats_init ::
    "(string \<Rightarrow> url_parts) \<Rightarrow> int \<Rightarrow> py_class \<Rightarrow> share_cfg \<Rightarrow> exn + ugr_obj" where
  "StorageStats_init split now c ep =
     (case opt_or_keyerror (cfg_id ep) ''id'' of Inl e \<Rightarrow> Inl e | Inr ident \<Rightarrow>
      case opt_or_keyerror (cfg_plugin_settings ep) ''plugin_options'' of Inl e \<Rightarrow> Inl e | Inr raw \<Rightarrow>
      case opt_or_keyerror (cfg_url ep) ''url'' of Inl e \<Rightarrow> Inl e | Inr url \<Rightarrow>
      let opts = AList.update ''url'' (PStr url) (map (\<lambda>(k, v). (k, PStr v)) raw) in
      case opt_or_keyerror (cfg_plugin ep) ''plugin'' of Inl e \<Rightarrow> Inl e | Inr plugin \<Rightarrow>
      let u = split url in
      case validate_schema c opts (url_scheme u) of Inl e \<Rightarrow> Inl e | Inr scheme \<Rightarrow>
      Inr \<lparr>o_class = c,
           o_stats = \<lparr>s_bytesused = PInt 0, s_bytesfree = PInt 0, s_files = PInt 0,
                      s_quota = PInt (1000 ^ 4), s_timestamp = now\<rparr>,
           o_id = ident,
           o_plugin_options = opts,
           o_plugin = plugin,
           o_uri = \<lparr>uri_hostname = url_hostname u, uri_netloc = url_netloc u,
                    uri_path = url_path u, uri_port = url_port u, uri_scheme = scheme,
                    uri_url = url, uri_bucket = None, uri_domain = None\<rparr>,
           o_debug = [],
           o_status = ''[OK][OK][200]'',
           o_validators = base_validators,
           o_storageprotocol = None\<rparr>)"

text \<open>
  \<^verbatim>\<open>validate_plugin_options\<close>. The result of a step is the exception that leaves the
  method, if any, and the object as it is then. One pass of the loop, for the rule
  \<open>rule\<close> of the option \<open>name\<close>: a missing required option is set to the empty string
  and raises the error; a missing optional one raises the warning, which is caught at
  once, recorded, and the default stored. For an option that is present, the value must
  be in the list \<^verbatim>\<open>valid\<close> when the rule has one; raising the invalid-option error
  passes the keyword \<^verbatim>\<open>valid_options\<close>, which the class's \<^verbatim>\<open>__init__\<close> does not have
  (its parameter is \<^verbatim>\<open>valid_plugin_options\<close>), so the call is a TypeError. A rule
  without \<^verbatim>\<open>valid\<close> skips the rest of the pass, the conversion to a truth value too.
\<close>

definition validate_option :: "string \<Rightarrow> validator \<Rightarrow> ugr_obj \<Rightarrow> exn option \<times> ugr_obj" where
  "validate_option name rule obj =
     (case map_of (o_plugin_options obj) name of
        None \<Rightarrow>
          if v_required rule then
            (Some (missing_required_option name),
             obj\<lparr>o_plugin_options := AList.update name (PStr []) (o_plugin_options obj)\<rparr>)
          else
            (case v_default rule of
               None \<Rightarrow> (Some (KeyError ''default''), obj)
             | Some d \<Rightarrow>
                 let w = warning_missing_option name d
                 in (None,
                     obj\<lparr>o_debug := o_debug obj @ [exn_debug w],
                         o_status := exn_message w,
                         o_plugin_options := AList.update name d (o_plugin_options obj)\<rparr>))
      | Some v \<Rightarrow>
          (case v_valid rule of
             None \<Rightarrow> (None, obj)
           | Some allowed \<Rightarrow>
               if \<not> (case v of PStr s \<Rightarrow> s \<in> set allowed | _ \<Rightarrow> False) then (Some TypeError, obj)
               else
                 (case v_boolean rule of
                    None \<Rightarrow> (None, obj)
                  | Some _ \<Rightarrow>
                      (case py_lower v of
                         Inl e \<Rightarrow> (Some e, obj)
                       | Inr l \<Rightarrow>
                           (None,
                            obj\<lparr>o_plugin_options :=
                                  AList.update name (PBool (\<not> (l = ''false'' \<or> l = ''no'')))
                                    (o_plugin_options obj)\<rparr>)))))"

fun validate_loop :: "(string \<times> validator) list \<Rightarrow> ugr_obj \<Rightarrow> exn option \<times> ugr_obj" where
  "validate_loop [] obj = (None, obj)"
| "validate_loop ((name, rule) # rest) obj =
     (case validate_option name rule obj of
        (Some e, obj') \<Rightarrow> (Some e, obj')
      | (None, obj') \<Rightarrow> validate_loop rest obj')"

text \<open>
  After the loop: a true \<^verbatim>\<open>ssl_check\<close> is replaced by \<^verbatim>\<open>ca_path\<close> when that option
  exists, and a quota other than the string "api" is converted to bytes. The
  comparison with "api" is exact; \<^verbatim>\<open>convert_size_to_bytes\<close> ends the process on a text
  it cannot read.
\<close>

definition validate_plugin_options :: "ugr_obj \<Rightarrow> exn option \<times> ugr_obj" where
  "validate_plugin_options obj =
     (case validate_loop (o_validators obj) obj of
        (Some e, obj1) \<Rightarrow> (Some e, obj1)
      | (None, obj1) \<Rightarrow>
     (case getitem (o_plugin_options obj1) ''ssl_check'' of
        Inl e \<Rightarrow> (Some e, obj1)
      | Inr ssl \<Rightarrow>
     let obj2 = (if truthy ssl
                 then (case map_of (o_plugin_options obj1) ''ca_path'' of
                         None \<Rightarrow> obj1
                       | Some ca \<Rightarrow>
                           obj1\<lparr>o_plugin_options :=
                                  AList.update ''ssl_check'' ca (o_plugin_options obj1)\<rparr>)
                 else obj1) in
     (case getitem (o_plugin_options obj2) ''quota'' of
        Inl e \<Rightarrow> (Some e, obj2)
      | Inr q \<Rightarrow>
          if q = PStr ''api'' then (None, obj2)
          else
            (case q of
               PStr sz \<Rightarrow>
                 (case convert_size_to_bytes sz of
                    Inl e \<Rightarrow> (Some e, obj2)
                  | Inr n \<Rightarrow>
                      (None,
                       obj2\<lparr>o_plugin_options :=
                              AList.update ''quota'' (PInt n) (o_plugin_options obj2)\<rparr>))
             | _ \<Rightarrow> (Some AttributeError, obj2)))))"

text \<open>
  The subclasses' constructors: the base constructor, the rules of the class added to
  \<^verbatim>\<open>validators\<close>, and the validation, of which only a \<^verbatim>\<open>UGRConfigFileError\<close> is caught
  and recorded. \<^verbatim>\<open>S3StorageStats\<close> then derives the bucket from the URL.
\<close>

definition s3_validators :: "(string \<times> validator) list" where
  "s3_validators =
     [(''s3.alternate'', \<lparr>v_required = False, v_default = Some (PStr ''false''),
                          v_valid = Some [''true'', ''false'', ''yes'', ''no''],
                          v_boolean = None\<rparr>),
      (''s3.api'', \<lparr>v_required = True, v_default = Some (PStr ''generic''),
                    v_valid = Some [''ceph-admin'', ''generic''], v_boolean = None\<rparr>),
      (''s3.priv_key'', \<lparr>v_required = True, v_default = None, v_valid = None,
                         v_boolean = None\<rparr>),
      (''s3.pub_key'', \<lparr>v_required = True, v_default = None, v_valid = None,
                        v_boolean = None\<rparr>),
      (''s3.region'', \<lparr>v_required = True, v_default = Some (PStr ''us-east-1''),
                       v_valid = None, v_boolean = None\<rparr>),
      (''s3.signature_ver'', \<lparr>v_required = False, v_default = Some (PStr ''s3v4''),
                              v_valid = Some [''s3'', ''s3v4''], v_boolean = None\<rparr>)]"

definition dav_validators :: "(string \<times> validator) list" where
  "dav_validators =
     [(''cli_certificate'', \<lparr>v_required = True, v_default = None, v_valid = None,
                             v_boolean = None\<rparr>),
      (''cli_private_key'', \<lparr>v_required = True, v_default = None, v_valid = None,
                             v_boolean = None\<rparr>)]"

definition dict_update_all :: "('k \<times> 'v) list \<Rightarrow> ('k \<times> 'v) list \<Rightarrow> ('k \<times> 'v) list" where
  "dict_update_all new d = foldl (\<lambda>acc (k, v). AList.update k v acc) d new"

definition validate_in_init :: "ugr_obj \<Rightarrow> exn + ugr_obj" where
  "validate_in_init obj =
     (case validate_plugin_options obj of
        (None, obj') \<Rightarrow> Inr obj'
      | (Some e, obj') \<Rightarrow>
          if is_UGRConfigFileError e
          then Inr (obj'\<lparr>o_debug := o_debug obj' @ [exn_debug e], o_status := exn_message e\<rparr>)
          else Inl e)"

definition is_alternate :: "ugr_obj \<Rightarrow> exn + bool" where
  "is_alternate obj =
     (case getitem (o_plugin_options obj) ''s3.alternate'' of
        Inl e \<Rightarrow> Inl e
      | Inr v \<Rightarrow> (case py_lower v of
                    Inl e \<Rightarrow> Inl e
                  | Inr l \<Rightarrow> Inr (l = ''true'' \<or> l = ''yes'')))"

definition S3StorageStats_init :: "(string \<Rightarrow> url_parts) \<Rightarrow> int \<Rightarrow> share_cfg \<Rightarrow> exn + ugr_obj" where
  "S3StorageStats_init split now ep =
     (case StorageStats_init split now S3StorageStats ep of Inl e \<Rightarrow> Inl e | Inr obj0 \<Rightarrow>
      let obj1 = obj0\<lparr>o_storageprotocol := Some ''S3'',
                      o_validators := dict_update_all s3_validators (o_validators obj0)\<rparr> in
      case validate_in_init obj1 of Inl e \<Rightarrow> Inl e | Inr obj2 \<Rightarrow>
      case is_alternate obj2 of Inl e \<Rightarrow> Inl e | Inr alt \<Rightarrow>
      let uri = o_uri obj2 in
      if alt then
        Inr (obj2\<lparr>o_uri := uri\<lparr>uri_bucket :=
                     Some (rev (takeWhile (\<lambda>x. x \<noteq> CHR ''/'') (rev (uri_path uri))))\<rparr>\<rparr>)
      else
        (let (bucket, domain) = partition02 (uri_netloc uri) (CHR ''.'')
         in Inr (obj2\<lparr>o_uri := uri\<lparr>uri_bucket := Some bucket, uri_domain := Some domain\<rparr>\<rparr>)))"

definition DAVStorageStats_init :: "(string \<Rightarrow> url_parts) \<Rightarrow> int \<Rightarrow> share_cfg \<Rightarrow> exn + ugr_obj" where
  "DAVStorageStats_init split now ep =
     (case StorageStats_init split now DAVStorageStats ep of Inl e \<Rightarrow> Inl e | Inr obj0 \<Rightarrow>
      validate_in_init
        (obj0\<lparr>o_storageprotocol := Some ''DAV'',
              o_validators := dict_update_all dav_validators (o_validators obj0)\<rparr>))"

text \<open>\<^verbatim>\<open>factory\<close> and \<^verbatim>\<open>get_endpoints\<close>: an unsupported plugin gives an object of the
  base class that carries the error; any other exception of a constructor leaves
  \<^verbatim>\<open>get_endpoints\<close>.\<close>

definition factory :: "string \<Rightarrow> exn + py_class" where
  "factory plugin =
     (case map_of [(''libugrlocplugin_dav.so'', DAVStorageStats),
                   (''libugrlocplugin_http.so'', DAVStorageStats),
                   (''libugrlocplugin_s3.so'', S3StorageStats)] plugin of
        Some c \<Rightarrow> Inr c
      | None \<Rightarrow> Inl (unsupported_plugin_error plugin))"

definition construct :: "(string \<Rightarrow> url_parts) \<Rightarrow> int \<Rightarrow> py_class \<Rightarrow> share_cfg \<Rightarrow> exn + ugr_obj" where
  "construct split now c ep =
     (case c of
        StorageStats \<Rightarrow> StorageStats_init split now StorageStats ep
      | S3StorageStats \<Rightarrow> S3StorageStats_init split now ep
      | DAVStorageStats \<Rightarrow> DAVStorageStats_init split now ep)"

definition get_endpoint :: "(string \<Rightarrow> url_parts) \<Rightarrow> int \<Rightarrow> share_cfg \<Rightarrow> exn + ugr_obj" where
  "get_endpoint split now ep =
     (case opt_or_keyerror (cfg_plugin ep) ''plugin'' of Inl e \<Rightarrow> Inl e | Inr plugin \<Rightarrow>
      case factory plugin of
        Inr c \<Rightarrow> construct split now c ep
      | Inl err \<Rightarrow>
          (case StorageStats_init split now StorageStats ep of
             Inl e \<Rightarrow> Inl e
           | Inr obj \<Rightarrow>
               Inr (obj\<lparr>o_debug := o_debug obj @ [exn_debug err], o_status := exn_message err\<rparr>)))"

fun get_endpoints :: "(string \<Rightarrow> url_parts) \<Rightarrow> int \<Rightarrow> (string \<times> share_cfg) list \<Rightarrow> exn + ugr_obj list" where
  "get_endpoints split now [] = Inr []"
| "get_endpoints split now ((k, ep) # rest) =
     (case get_endpoint split now ep of
        Inl e \<Rightarrow> Inl e
      | Inr obj \<Rightarrow> (case get_endpoints split now rest of
                      Inl e \<Rightarrow> Inl e
                    | Inr objs \<Rightarrow> Inr (obj # objs)))"

section \<open>The script: the collectors and the main loop\<close>

text \<open>
  The network is a parameter. For an object, \<open>w_list_objects\<close> answers
  \<^verbatim>\<open>connection.list_objects\<close> for the marker passed (\<open>None\<close> on the first call),
  \<open>w_ceph_admin\<close> answers the request to the admin API and \<open>w_propfind\<close> the PROPFIND
  request. An answer is one of the exceptions the code handles, with the name of its
  class, its status code where it has one and its text, or another exception, or a
  response. A listing page is the sizes under \<^verbatim>\<open>Contents\<close> and the \<^verbatim>\<open>NextMarker\<close>,
  each \<open>None\<close> when the key is absent. An HTTP response is its status code as text,
  its content and the decoded JSON, \<open>None\<close> when \<^verbatim>\<open>r.json()\<close> raises ValueError.
\<close>

datatype list_result =
    ClientError string string string
  | RequestException string string
  | ParamValidationError string string
  | BotoCoreError string string
  | ListRaises exn
  | Page "int list option" "string option"

datatype http_result =
    HttpConnectionError string string
  | HttpRaises exn
  | HttpResponse string string "pyval option"

datatype dav_result =
    DavConnectionError string string
  | DavIOError string
  | DavRaises exn
  | DavResponse dav_response

record world =
  w_urlsplit :: "string \<Rightarrow> url_parts"
  w_now :: int
  w_list_objects :: "ugr_obj \<Rightarrow> string option \<Rightarrow> list_result"
  w_ceph_admin :: "ugr_obj \<Rightarrow> http_result"
  w_propfind :: "ugr_obj \<Rightarrow> dav_result"

text \<open>A step that may raise: the exception leaves the method with the object as it is.\<close>

definition or_raise :: "exn + 'a \<Rightarrow> ugr_obj \<Rightarrow> ('a \<Rightarrow> exn option \<times> ugr_obj) \<Rightarrow> exn option \<times> ugr_obj" where
  "or_raise r obj k = (case r of Inl e \<Rightarrow> (Some e, obj) | Inr x \<Rightarrow> k x)"

text \<open>\<^verbatim>\<open>v[k]\<close> for a string key, \<^verbatim>\<open>len(v)\<close>, and \<^verbatim>\<open>v == True\<close>, \<^verbatim>\<open>v == False\<close>.\<close>

definition py_getitem :: "pyval \<Rightarrow> string \<Rightarrow> exn + pyval" where
  "py_getitem v k = (case v of PDict d \<Rightarrow> getitem d k | _ \<Rightarrow> Inl TypeError)"

definition py_len :: "pyval \<Rightarrow> exn + nat" where
  "py_len v =
     (case v of
        PDict d \<Rightarrow> Inr (length d)
      | PList l \<Rightarrow> Inr (length l)
      | PStr s \<Rightarrow> Inr (length s)
      | _ \<Rightarrow> Inl TypeError)"

definition eq_True :: "pyval \<Rightarrow> bool" where
  "eq_True v = (v = PBool True \<or> v = PInt 1)"

definition eq_False :: "pyval \<Rightarrow> bool" where
  "eq_False v = (v = PBool False \<or> v = PInt 0)"

text \<open>
  The \<^verbatim>\<open>while True\<close> loop of the generic S3 strategy. One pass asks for a page: a handled
  exception becomes the connection error, which leaves the method; a page without
  \<^verbatim>\<open>Contents\<close> ends the loop; otherwise the sizes are added and the objects counted,
  and the loop goes on from \<^verbatim>\<open>NextMarker\<close> or ends when the page has none. \<open>Inl\<close> is
  the end of the pass with the method's exception or the loop's totals, \<open>Inr\<close> the
  marker and the totals of the next pass.
\<close>

definition list_step :: "list_result \<Rightarrow> int \<Rightarrow> int \<Rightarrow> (exn + int \<times> int) + (string \<times> int \<times> int)" where
  "list_step r total_bytes total_files =
     (case r of
        ClientError cls status_code msg \<Rightarrow> Inl (Inl (connection_error cls status_code (PStr msg)))
      | RequestException cls msg \<Rightarrow> Inl (Inl (connection_error cls ''000'' (PStr msg)))
      | ParamValidationError cls msg \<Rightarrow> Inl (Inl (connection_error cls ''000'' (PStr msg)))
      | BotoCoreError cls msg \<Rightarrow> Inl (Inl (connection_error cls ''000'' (PStr msg)))
      | ListRaises e \<Rightarrow> Inl (Inl e)
      | Page contents next_marker \<Rightarrow>
          (case contents of
             None \<Rightarrow> Inl (Inr (total_bytes, total_files))
           | Some sizes \<Rightarrow>
               (let tb = total_bytes + sum_list sizes; tf = total_files + int (length sizes)
                in case next_marker of
                     None \<Rightarrow> Inl (Inr (tb, tf))
                   | Some m \<Rightarrow> Inr (m, tb, tf))))"

text \<open>The loop may never end, when the provider keeps handing out markers: \<open>None\<close> is
  the loop that does not return.\<close>

partial_function (option) list_loop ::
    "(string option \<Rightarrow> list_result) \<Rightarrow> string option \<Rightarrow> int \<Rightarrow> int \<Rightarrow> (exn + int \<times> int) option" where
  "list_loop provider marker total_bytes total_files =
     (case list_step (provider marker) total_bytes total_files of
        Inl done \<Rightarrow> Some done
      | Inr (m, tb, tf) \<Rightarrow> list_loop provider (Some m) tb tf)"

declare list_loop.simps [code]

text \<open>The generic branch of \<^verbatim>\<open>S3StorageStats.get_storagestats\<close>. The options and the
  \<^verbatim>\<open>uri\<close> entries the client is built from are read first, in the order of the code.\<close>

definition s3_client_args :: "ugr_obj \<Rightarrow> exn option \<times> ugr_obj" where
  "s3_client_args obj =
     (let opts = o_plugin_options obj in
      or_raise (is_alternate obj) obj (\<lambda>alt.
      or_raise (if alt then Inr [] else opt_or_keyerror (uri_domain (o_uri obj)) ''domain'') obj (\<lambda>_.
      or_raise (getitem opts ''s3.region'') obj (\<lambda>_.
      or_raise (getitem opts ''s3.pub_key'') obj (\<lambda>_.
      or_raise (getitem opts ''s3.priv_key'') obj (\<lambda>_.
      or_raise (getitem opts ''ssl_check'') obj (\<lambda>_.
      or_raise (getitem opts ''s3.signature_ver'') obj (\<lambda>_.
      or_raise (opt_or_keyerror (uri_bucket (o_uri obj)) ''bucket'') obj (\<lambda>_.
      (None, obj))))))))))"

text \<open>After the loop: the totals are stored, and the quota is the default of 1TB with
  the no-quota warning when the option is "api", the configured number otherwise.\<close>

definition s3_generic_finish :: "int \<Rightarrow> int \<Rightarrow> ugr_obj \<Rightarrow> exn option \<times> ugr_obj" where
  "s3_generic_finish total_bytes total_files obj =
     (let obj1 = obj\<lparr>o_stats := (o_stats obj)\<lparr>s_bytesused := PInt total_bytes\<rparr>\<rparr> in
      or_raise (getitem (o_plugin_options obj1) ''quota'') obj1 (\<lambda>q.
      if q = PStr ''api'' then
        or_raise (convert_size_to_bytes ''1TB'') obj1 (\<lambda>n.
        let obj2 = obj1\<lparr>o_stats := (o_stats obj1)\<lparr>s_quota := PInt n,
                                                   s_files := PInt total_files\<rparr>\<rparr> in
        or_raise (py_sub (PInt n) (PInt total_bytes)) obj2 (\<lambda>free.
        (Some quota_warning, obj2\<lparr>o_stats := (o_stats obj2)\<lparr>s_bytesfree := free\<rparr>\<rparr>)))
      else
        (let obj2 = obj1\<lparr>o_stats := (o_stats obj1)\<lparr>s_quota := q,
                                                    s_files := PInt total_files\<rparr>\<rparr> in
         or_raise (py_sub q (PInt total_bytes)) obj2 (\<lambda>free.
         (None, obj2\<lparr>o_stats := (o_stats obj2)\<lparr>s_bytesfree := free\<rparr>\<rparr>)))))"

definition s3_generic :: "world \<Rightarrow> ugr_obj \<Rightarrow> (exn option \<times> ugr_obj) option" where
  "s3_generic w obj =
     (case s3_client_args obj of
        (Some e, obj') \<Rightarrow> Some (Some e, obj')
      | (None, _) \<Rightarrow>
          (case list_loop (w_list_objects w obj) None 0 0 of
             None \<Rightarrow> None
           | Some (Inl e) \<Rightarrow> Some (Some e, obj)
           | Some (Inr (total_bytes, total_files)) \<Rightarrow>
               Some (s3_generic_finish total_bytes total_files obj)))"

text \<open>
  The ceph-admin branch. The bucket usage is read from the decoded JSON; a missing
  \<^verbatim>\<open>usage\<close> key raises the missing-usage error, whose arguments read the key
  \<^verbatim>\<open>Code\<close>. The exceptions of subscripting and of \<^verbatim>\<open>len\<close> are not caught.
\<close>

definition ceph_quota :: "pyval \<Rightarrow> ugr_obj \<Rightarrow> exn option \<times> ugr_obj" where
  "ceph_quota js obj =
     (let used = s_bytesused (o_stats obj) in
      or_raise (getitem (o_plugin_options obj) ''quota'') obj (\<lambda>q.
      if q \<noteq> PStr ''api'' then
        (let obj1 = obj\<lparr>o_stats := (o_stats obj)\<lparr>s_quota := q\<rparr>\<rparr> in
         or_raise (py_sub q used) obj1 (\<lambda>free.
         (None, obj1\<lparr>o_stats := (o_stats obj1)\<lparr>s_bytesfree := free\<rparr>\<rparr>)))
      else
        or_raise (py_getitem js ''bucket_quota'') obj (\<lambda>bq.
        or_raise (py_getitem bq ''enabled'') obj (\<lambda>enabled.
        if eq_True enabled then
          or_raise (py_getitem bq ''max_size'') obj (\<lambda>m.
          let obj1 = obj\<lparr>o_stats := (o_stats obj)\<lparr>s_quota := m\<rparr>\<rparr> in
          or_raise (py_sub m used) obj1 (\<lambda>free.
          (None, obj1\<lparr>o_stats := (o_stats obj1)\<lparr>s_bytesfree := free\<rparr>\<rparr>)))
        else
          or_raise (convert_size_to_bytes ''1TB'') obj (\<lambda>n.
          let obj1 = obj\<lparr>o_stats := (o_stats obj)\<lparr>s_quota := PInt n\<rparr>\<rparr> in
          or_raise (py_sub (PInt n) used) obj1 (\<lambda>free.
          (Some (if eq_False enabled then quota_disabled_warning else quota_warning),
           obj1\<lparr>o_stats := (o_stats obj1)\<lparr>s_bytesfree := free\<rparr>\<rparr>)))))))"

definition ceph_usage :: "string \<Rightarrow> pyval \<Rightarrow> ugr_obj \<Rightarrow> exn option \<times> ugr_obj" where
  "ceph_usage status_code js obj =
     (case py_getitem js ''usage'' of
        Inl (KeyError _) \<Rightarrow>
          or_raise (py_getitem js ''Code'') obj (\<lambda>code.
          (Some (missing_bucket_usage (py_str code) status_code js), obj))
      | Inl e \<Rightarrow> (Some e, obj)
      | Inr usage \<Rightarrow>
          or_raise (py_len usage) obj (\<lambda>n.
          if n \<noteq> 0 then
            or_raise (py_getitem usage ''rgw.main'') obj (\<lambda>main.
            or_raise (py_getitem main ''size_utilized'') obj (\<lambda>size_utilized.
            ceph_quota js (obj\<lparr>o_stats := (o_stats obj)\<lparr>s_bytesused := size_utilized\<rparr>\<rparr>)))
          else ceph_quota js obj))"

definition ceph_admin :: "world \<Rightarrow> ugr_obj \<Rightarrow> exn option \<times> ugr_obj" where
  "ceph_admin w obj =
     (let opts = o_plugin_options obj in
      or_raise (is_alternate obj) obj (\<lambda>alt.
      or_raise (if alt then Inr [] else opt_or_keyerror (uri_domain (o_uri obj)) ''domain'') obj (\<lambda>_.
      or_raise (opt_or_keyerror (uri_bucket (o_uri obj)) ''bucket'') obj (\<lambda>_.
      or_raise (getitem opts ''s3.pub_key'') obj (\<lambda>_.
      or_raise (getitem opts ''s3.priv_key'') obj (\<lambda>_.
      or_raise (getitem opts ''s3.region'') obj (\<lambda>_.
      or_raise (getitem opts ''ssl_check'') obj (\<lambda>_.
      (case w_ceph_admin w obj of
         HttpConnectionError cls msg \<Rightarrow> (Some (connection_error cls ''000'' (PStr msg)), obj)
       | HttpRaises e \<Rightarrow> (Some e, obj)
       | HttpResponse status_code content decoded \<Rightarrow>
           (case decoded of
              None \<Rightarrow>
                or_raise (getitem opts ''s3.api'') obj (\<lambda>api.
                (Some (s3api_error ''NoContent'' status_code (py_str api) (PStr content)), obj))
            | Some js \<Rightarrow> ceph_usage status_code js obj))))))))))"

text \<open>
  \<^verbatim>\<open>DAVStorageStats.get_storagestats\<close>. The unsupported-method error is raised and
  caught inside the method, which then sets the three statistics to -1 and records the
  error; reading \<^verbatim>\<open>.text\<close> of a missing element is not caught.
\<close>

definition dav_read_quota :: "dav_xml \<Rightarrow> string option \<Rightarrow> ugr_obj \<Rightarrow> exn option \<times> ugr_obj" where
  "dav_read_quota tree node obj =
     (case quota_used_bytes tree of
        None \<Rightarrow> (Some AttributeError, obj)
      | Some used_text \<Rightarrow>
          or_raise (int_of_text used_text) obj (\<lambda>used.
          let obj1 = obj\<lparr>o_stats := (o_stats obj)\<lparr>s_bytesused := PInt used\<rparr>\<rparr> in
          or_raise (int_of_text node) obj1 (\<lambda>free.
          let obj2 = obj1\<lparr>o_stats := (o_stats obj1)\<lparr>s_bytesfree := PInt free\<rparr>\<rparr> in
          or_raise (getitem (o_plugin_options obj) ''quota'') obj2 (\<lambda>q.
          if q = PStr ''api'' then
            (if free \<noteq> 0
             then (None, obj2\<lparr>o_stats := (o_stats obj2)\<lparr>s_quota := PInt (used + free)\<rparr>\<rparr>)
             else (None, obj2))
          else (None, obj2\<lparr>o_stats := (o_stats obj2)\<lparr>s_quota := q\<rparr>\<rparr>)))))"

definition dav_process :: "dav_xml \<Rightarrow> ugr_obj \<Rightarrow> exn option \<times> ugr_obj" where
  "dav_process tree obj =
     (case quota_available_bytes tree of
        None \<Rightarrow> (Some AttributeError, obj)
      | Some node \<Rightarrow>
          if node = None then
            (let err = dav_quota_method_error ''UnsupportedMethod''
             in (None,
                 obj\<lparr>o_stats := (o_stats obj)\<lparr>s_bytesused := PInt (- 1),
                                                s_bytesfree := PInt (- 1),
                                                s_quota := PInt (- 1)\<rparr>,
                     o_debug := o_debug obj @ [exn_debug err],
                     o_status := exn_message err\<rparr>))
          else dav_read_quota tree node obj)"

definition dav_get_storagestats :: "world \<Rightarrow> ugr_obj \<Rightarrow> exn option \<times> ugr_obj" where
  "dav_get_storagestats w obj =
     (let opts = o_plugin_options obj in
      or_raise (getitem opts ''cli_certificate'') obj (\<lambda>_.
      or_raise (getitem opts ''cli_private_key'') obj (\<lambda>_.
      or_raise (getitem opts ''ssl_check'') obj (\<lambda>_.
      (case w_propfind w obj of
         DavConnectionError cls msg \<Rightarrow> (Some (connection_error cls ''000'' (PStr msg)), obj)
       | DavIOError msg \<Rightarrow>
           (Some (dav_cert_path_error ''ClientCertError'' ''000''
                    (filter (\<lambda>c. c \<noteq> CHR '' '') (last (split_sep msg '':''))) (PStr msg)), obj)
       | DavRaises e \<Rightarrow> (Some e, obj)
       | DavResponse response \<Rightarrow>
           (case parsed response of
              None \<Rightarrow> (Some XMLSyntaxError, obj)
            | Some tree \<Rightarrow> dav_process tree obj))))))"

text \<open>
  \<^verbatim>\<open>get_storagestats\<close>, by the class of the object: the method of the base class does
  nothing, and the S3 method does nothing for an \<^verbatim>\<open>s3.api\<close> other than the two names.
\<close>

definition get_storagestats :: "world \<Rightarrow> ugr_obj \<Rightarrow> (exn option \<times> ugr_obj) option" where
  "get_storagestats w obj =
     (case o_class obj of
        StorageStats \<Rightarrow> Some (None, obj)
      | DAVStorageStats \<Rightarrow> Some (dav_get_storagestats w obj)
      | S3StorageStats \<Rightarrow>
          (case getitem (o_plugin_options obj) ''s3.api'' of
             Inl e \<Rightarrow> Some (Some e, obj)
           | Inr api \<Rightarrow>
               (case py_lower api of
                  Inl e \<Rightarrow> Some (Some e, obj)
                | Inr name \<Rightarrow>
                    if name = ''ceph-admin'' then Some (ceph_admin w obj)
                    else if name = ''generic'' then s3_generic w obj
                    else Some (None, obj))))"

text \<open>
  The loop of the main program over the objects: a storage warning or a storage error
  raised by \<^verbatim>\<open>get_storagestats\<close> is recorded on the object, \<^verbatim>\<open>debug\<close> appended and
  \<^verbatim>\<open>status\<close> replaced, and the loop goes on; any other exception leaves the program.
  The two output steps of the loop body are switched by command-line options and are
  not part of the model.
\<close>

definition record_outcome :: "exn option \<times> ugr_obj \<Rightarrow> exn + ugr_obj" where
  "record_outcome r =
     (case r of
        (None, obj) \<Rightarrow> Inr obj
      | (Some e, obj) \<Rightarrow>
          if is_UGRStorageStatsWarning e \<or> is_UGRStorageStatsError e
          then Inr (obj\<lparr>o_debug := o_debug obj @ [exn_debug e], o_status := exn_message e\<rparr>)
          else Inl e)"

fun collect_all :: "world \<Rightarrow> ugr_obj list \<Rightarrow> (exn + ugr_obj list) option" where
  "collect_all w [] = Some (Inr [])"
| "collect_all w (obj # rest) =
     (case get_storagestats w obj of
        None \<Rightarrow> None
      | Some r \<Rightarrow>
          (case record_outcome r of
             Inl e \<Rightarrow> Some (Inl e)
           | Inr obj' \<Rightarrow>
               (case collect_all w rest of
                  None \<Rightarrow> None
                | Some (Inl e) \<Rightarrow> Some (Inl e)
                | Some (Inr objs) \<Rightarrow> Some (Inr (obj' # objs)))))"

text \<open>The program: the objects are built from the configuration, then polled in order.\<close>

definition main :: "world \<Rightarrow> (string \<times> share_cfg) list \<Rightarrow> (exn + ugr_obj list) option" where
  "main w endpoints =
     (case get_endpoints (w_urlsplit w) (w_now w) endpoints of
        Inl e \<Rightarrow> Some (Inl e)
      | Inr objs \<Rightarrow> collect_all w objs)"

text \<open>
  A provider that, asked from the marker \<open>m\<close> on, serves the pages with the given
  \<^verbatim>\<open>Contents\<close>, each but the last with a \<^verbatim>\<open>NextMarker\<close> that leads to the next, and
  the last without one.
\<close>

fun serves :: "(string option \<Rightarrow> list_result) \<Rightarrow> string option \<Rightarrow> int list list \<Rightarrow> bool" where
  "serves provider m [] = False"
| "serves provider m [sizes] = (provider m = Page (Some sizes) None)"
| "serves provider m (sizes # later) =
     (case provider m of
        Page (Some s) (Some mk) \<Rightarrow> s = sizes \<and> serves provider (Some mk) later
      | _ \<Rightarrow> False)"

section \<open>Example inputs\<close>

text \<open>
  A world for the examples. \<^verbatim>\<open>urlsplit\<close> is given for URLs of the form
  scheme://host/path, without port, user, query or fragment. Every listing is one page
  with two objects of 100 and 200 bytes and no \<^verbatim>\<open>NextMarker\<close>, the admin API cannot be
  reached, and every PROPFIND is answered with 500 bytes used and 1500 bytes available.
\<close>

definition example_urlsplit :: "string \<Rightarrow> url_parts" where
  "example_urlsplit url =
     (case split_sep url ''://'' of
        [scheme, rest] \<Rightarrow>
          (let netloc = takeWhile (\<lambda>c. c \<noteq> CHR ''/'') rest
           in \<lparr>url_scheme = scheme, url_netloc = netloc,
               url_path = dropWhile (\<lambda>c. c \<noteq> CHR ''/'') rest,
               url_hostname = Some netloc, url_port = None\<rparr>)
      | _ \<Rightarrow> \<lparr>url_scheme = [], url_netloc = [], url_path = url, url_hostname = None,
               url_port = None\<rparr>)"

definition example_world :: world where
  "example_world =
     \<lparr>w_urlsplit = example_urlsplit,
      w_now = 1500000000,
      w_list_objects = (\<lambda>obj marker. Page (Some [100, 200]) None),
      w_ceph_admin = (\<lambda>obj. HttpConnectionError ''ConnectionError'' ''connection refused''),
      w_propfind = (\<lambda>obj. DavResponse
                      \<lparr>body = ''<multistatus/>'',
                       parsed = Some \<lparr>quota_available_bytes = Some (Some ''1500''),
                                      quota_used_bytes = Some (Some ''500'')\<rparr>\<rparr>)\<rparr>"

text \<open>
  The records \<^verbatim>\<open>get_config\<close> builds for three shares: an S3 share with the given
  \<^verbatim>\<open>quota\<close> option, a DAV share with the given options, and a share whose plugin has
  no class.
\<close>

definition example_s3_share :: "string \<Rightarrow> string \<times> share_cfg" where
  "example_s3_share q =
     (''s3share'',
      \<lparr>cfg_id = Some ''s3share'', cfg_url = Some ''https://bucket.s3.example.org/'',
       cfg_plugin = Some ''libugrlocplugin_s3.so'',
       cfg_plugin_settings =
         Some [(''s3.api'', ''generic''), (''s3.priv_key'', ''secret''),
               (''s3.pub_key'', ''public''), (''s3.region'', ''us-east-1''),
               (''quota'', q)]\<rparr>)"

definition example_dav_share :: "(string \<times> string) list \<Rightarrow> string \<times> share_cfg" where
  "example_dav_share settings =
     (''davshare'',
      \<lparr>cfg_id = Some ''davshare'', cfg_url = Some ''davs://dav.example.org/data'',
       cfg_plugin = Some ''libugrlocplugin_dav.so'',
       cfg_plugin_settings = Some settings\<rparr>)"



text \<open>
  The object that \<^verbatim>\<open>DAVStorageStats.__init__\<close> has built for the DAV share at the
  moment it calls \<^verbatim>\<open>validate_plugin_options\<close>.
\<close>

definition example_dav_obj :: "(string \<times> string) list \<Rightarrow> ugr_obj" where
  "example_dav_obj settings =
     \<lparr>o_class = DAVStorageStats,
      o_stats = \<lparr>s_bytesused = PInt 0, s_bytesfree = PInt 0, s_files = PInt 0,
                 s_quota = PInt (1000 ^ 4), s_timestamp = 1500000000\<rparr>,
      o_id = ''davshare'',
      o_plugin_options =
        AList.update ''url'' (PStr ''davs://dav.example.org/data'')
          (map (\<lambda>(k, v). (k, PStr v)) settings),
      o_plugin = ''libugrlocplugin_dav.so'',
      o_uri = \<lparr>uri_hostname = Some ''dav.example.org'', uri_netloc = ''dav.example.org'',
               uri_path = ''/data'', uri_port = None, uri_scheme = ''https'',
               uri_url = ''davs://dav.example.org/data'', uri_bucket = None,
               uri_domain = None\<rparr>,
      o_debug = [],
      o_status = ''[OK][OK][200]'',
      o_validators = dict_update_all dav_validators base_validators,
      o_storageprotocol = Some ''DAV''\<rparr>"

section \<open>Properties of \<^verbatim>\<open>convert_size_to_bytes\<close>\<close>

lemmas convert_eval = convert_size_to_bytes_def convert_size_to_bytes_in_def multipliers_def
  endswith_def lower_def lower_char_def suffix_to_prefix int_or_raise_def py_int_def
  int_strip_def int_isspace_def int_whitespace_def int_max_str_digits_def isdigit_def
  digits_val_def digit_val_def























section \<open>Properties of \<^verbatim>\<open>parse_conf_files\<close>\<close>

lemma contains_iff: "contains sub s \<longleftrightarrow> (\<exists>p r. s = p @ sub @ r)"
proof (induction s)
  case Nil
  then show ?case by simp
next
  case (Cons c cs)
  have "(\<exists>p r. c # cs = p @ sub @ r) \<longleftrightarrow> prefix sub (c # cs) \<or> (\<exists>p r. cs = p @ sub @ r)"
  proof
    assume "\<exists>p r. c # cs = p @ sub @ r"
    then obtain p r where h: "c # cs = p @ sub @ r" by blast
    show "prefix sub (c # cs) \<or> (\<exists>p r. cs = p @ sub @ r)"
    proof (cases p)
      case Nil
      then show ?thesis using h by (simp add: prefix_def)
    next
      case (Cons x xs)
      then have "cs = xs @ sub @ r" using h by simp
      then show ?thesis by blast
    qed
  next
    assume "prefix sub (c # cs) \<or> (\<exists>p r. cs = p @ sub @ r)"
    then show "\<exists>p r. c # cs = p @ sub @ r"
    proof
      assume "prefix sub (c # cs)"
      then obtain r where "c # cs = sub @ r" by (auto simp: prefix_def)
      then have "c # cs = [] @ sub @ r" by simp
      then show ?thesis by blast
    next
      assume "\<exists>p r. cs = p @ sub @ r"
      then obtain p r where "cs = p @ sub @ r" by blast
      then have "c # cs = (c # p) @ sub @ r" by simp
      then show ?thesis by blast
    qed
  qed
  then show ?case using Cons by simp
qed

lemma decl_has_marker:
  assumes "contains ''glb.locplugin[]'' s"
  shows "contains ''locplugin'' s"
proof -
  obtain p r where "s = p @ ''glb.locplugin[]'' @ r"
    using assms contains_iff by blast
  then have "s = (p @ ''glb.'') @ ''locplugin'' @ (''[]'' @ r)" by simp
  then show ?thesis unfolding contains_iff by blast
qed

lemma process_comment:
  "is_comment l \<Longrightarrow> process_line f n l st = Inr st"
  by (simp add: process_line_def is_comment_def)

lemma process_other:
  "\<not> is_comment l \<Longrightarrow> \<not> contains ''locplugin'' (strip l) \<Longrightarrow> process_line f n l st = Inr st"
  using decl_has_marker [of "strip l"] by (auto simp: process_line_def is_comment_def Let_def)

lemma process_global:
  "is_global_setting l \<Longrightarrow>
     process_line f n l st =
       Inr (st\<lparr>global_settings :=
               AList.update (last (split_sep (fst (partition02 (strip l) (CHR '':''))) ''*.''))
                 (strip (snd (partition02 (strip l) (CHR '':'')))) (global_settings st)\<rparr>)"
  by (auto simp: process_line_def is_global_setting_def is_setting_def is_comment_def locid_of_def
      Let_def split: prod.splits if_splits)

lemma process_local_unbound:
  "is_local_setting l \<Longrightarrow> cur_id st = None \<Longrightarrow>
     process_line f n l st = Inl (UnboundLocalError ''_id'')"
  by (auto simp: process_line_def is_local_setting_def is_setting_def is_comment_def locid_of_def
      Let_def split: prod.splits if_splits option.splits)

lemma process_local_mismatch:
  "is_local_setting l \<Longrightarrow> cur_id st = Some i \<Longrightarrow> locid_of l \<noteq> Some i \<Longrightarrow>
     process_line f n l st =
       Inl (DSSConfigFileErrorIDMismatch i ''SettingIDMismatch'' n f (hd (split_sep (strip l) '':'')))"
  by (auto simp: process_line_def is_local_setting_def is_setting_def is_comment_def locid_of_def
      Let_def split: prod.splits if_splits option.splits)

lemma process_inert:
  assumes "is_inert l" "cur_id st = None"
  shows "\<exists>st'. process_line f n l st = Inr st' \<and> cur_id st' = None"
  using assms process_comment [of l f n st] process_other [of l f n st] process_global [of l f n st]
  by (auto simp: is_inert_def)


lemma scan_lines_append:
  "scan_lines f n (xs @ ys) st =
     (case scan_lines f n xs st of
        Inl e \<Rightarrow> Inl e
      | Inr st' \<Rightarrow> scan_lines f (n + length xs) ys st')"
  by (induction xs arbitrary: n st) (auto split: sum.splits)

lemma scan_files_append:
  "scan_files (fs @ gs) st =
     (case scan_files fs st of Inl e \<Rightarrow> Inl e | Inr st' \<Rightarrow> scan_files gs st')"
  by (induction fs arbitrary: st) (auto split: sum.splits)

lemma scan_lines_inert:
  assumes "\<forall>l \<in> set ls. is_inert l" "cur_id st = None"
  shows "\<exists>st'. scan_lines f n ls st = Inr st' \<and> cur_id st' = None"
  using assms
proof (induction ls arbitrary: n st)
  case Nil
  then show ?case by simp
next
  case (Cons l ls)
  obtain st1 where 1: "process_line f n l st = Inr st1" "cur_id st1 = None"
    using process_inert [of l st f n] Cons.prems by auto
  obtain st2 where "scan_lines f (Suc n) ls st1 = Inr st2" "cur_id st2 = None"
    using Cons.IH [of st1 "Suc n"] Cons.prems 1 by auto
  then show ?case using 1 by simp
qed

lemma scan_files_inert:
  assumes "\<forall>(f, ls) \<in> set fs. \<forall>l \<in> set ls. is_inert l" "cur_id st = None"
  shows "\<exists>st'. scan_files fs st = Inr st' \<and> cur_id st' = None"
  using assms
proof (induction fs arbitrary: st)
  case Nil
  then show ?case by simp
next
  case (Cons p fs)
  obtain f ls where p: "p = (f, ls)" by (cases p)
  obtain st1 where 1: "scan_lines f 0 ls st = Inr st1" "cur_id st1 = None"
    using scan_lines_inert [of ls st f 0] Cons.prems p by auto
  obtain st2 where "scan_files fs st1 = Inr st2" "cur_id st2 = None"
    using Cons.IH [of st1] Cons.prems 1 by auto
  then show ?case using 1 p by simp
qed

lemma parse_unbound:
  assumes "\<forall>(f, ls) \<in> set pre. \<forall>l \<in> set ls. is_inert l" "\<forall>l \<in> set before. is_inert l"
    and "is_local_setting l"
  shows "parse_conf_files (pre @ (fname, before @ l # after) # rest) =
           Inl (UnboundLocalError ''_id'')"
proof -
  obtain st1 where 1: "scan_files pre init_state = Inr st1" "cur_id st1 = None"
    using scan_files_inert [OF assms(1), of init_state] by (auto simp: init_state_def)
  obtain st2 where 2: "scan_lines fname 0 before st1 = Inr st2" "cur_id st2 = None"
    using scan_lines_inert [OF assms(2) 1(2)] by blast
  have "process_line fname (length before) l st2 = Inl (UnboundLocalError ''_id'')"
    using process_local_unbound [OF assms(3) 2(2)] .
  then have "scan_lines fname 0 (before @ l # after) st1 = Inl (UnboundLocalError ''_id'')"
    using 2 by (simp add: scan_lines_append)
  then have "scan_files (pre @ (fname, before @ l # after) # rest) init_state =
      Inl (UnboundLocalError ''_id'')"
    using 1 by (simp add: scan_files_append)
  then show ?thesis by (simp add: parse_conf_files_def)
qed

lemma process_no_declaration:
  assumes "\<not> is_declaration l" "cur_id st = None"
  shows "case process_line f n l st of Inl e \<Rightarrow> \<not> is_id_mismatch e | Inr st' \<Rightarrow> cur_id st' = None"
  using assms
  by (auto simp: process_line_def is_declaration_def is_comment_def Let_def is_id_mismatch_def
      split: prod.splits option.splits)

lemma scan_lines_no_declaration:
  assumes "\<forall>l \<in> set ls. \<not> is_declaration l" "cur_id st = None"
  shows "case scan_lines f n ls st of Inl e \<Rightarrow> \<not> is_id_mismatch e | Inr st' \<Rightarrow> cur_id st' = None"
  using assms
proof (induction ls arbitrary: n st)
  case Nil
  then show ?case by simp
next
  case (Cons l ls)
  show ?case
  proof (cases "process_line f n l st")
    case (Inl e)
    then show ?thesis using process_no_declaration [of l st f n] Cons.prems by simp
  next
    case (Inr st1)
    then have "cur_id st1 = None" using process_no_declaration [of l st f n] Cons.prems by simp
    then show ?thesis using Cons.IH [of st1 "Suc n"] Cons.prems Inr by simp
  qed
qed

lemma scan_files_no_declaration:
  assumes "\<forall>(f, ls) \<in> set fs. \<forall>l \<in> set ls. \<not> is_declaration l" "cur_id st = None"
  shows "case scan_files fs st of Inl e \<Rightarrow> \<not> is_id_mismatch e | Inr st' \<Rightarrow> cur_id st' = None"
  using assms
proof (induction fs arbitrary: st)
  case Nil
  then show ?case by simp
next
  case (Cons p fs)
  obtain f ls where p: "p = (f, ls)" by (cases p)
  show ?case
  proof (cases "scan_lines f 0 ls st")
    case (Inl e)
    then show ?thesis using scan_lines_no_declaration [of ls st f 0] Cons.prems p by simp
  next
    case (Inr st1)
    then have "cur_id st1 = None" using scan_lines_no_declaration [of ls st f 0] Cons.prems p by simp
    then show ?thesis using Cons.IH [of st1] Cons.prems Inr p by simp
  qed
qed

lemma fill_shares_error: "fill_shares k v shares = Inl e \<Longrightarrow> e = KeyError ''plugin_settings''"
  by (induction shares) (auto simp: fill_share_def split: sum.splits option.splits)

lemma apply_globals_error: "apply_globals gs shares = Inl e \<Longrightarrow> e = KeyError ''plugin_settings''"
  by (induction gs arbitrary: shares) (auto split: sum.splits dest: fill_shares_error)

lemma mismatch_needs_declaration:
  assumes "is_id_mismatch e" "parse_conf_files files = Inl e"
  shows "\<exists>(f, ls) \<in> set files. \<exists>x \<in> set ls. is_declaration x"
proof (rule ccontr)
  assume "\<not> (\<exists>(f, ls) \<in> set files. \<exists>x \<in> set ls. is_declaration x)"
  then have n: "\<forall>(f, ls) \<in> set files. \<forall>l \<in> set ls. \<not> is_declaration l" by auto
  have c: "case scan_files files init_state of Inl e \<Rightarrow> \<not> is_id_mismatch e
           | Inr st' \<Rightarrow> cur_id st' = None"
    by (rule scan_files_no_declaration [OF n]) (simp add: init_state_def)
  show False
  proof (cases "scan_files files init_state")
    case (Inl e')
    then show ?thesis using c assms by (simp add: parse_conf_files_def)
  next
    case (Inr st)
    then have "e = KeyError ''plugin_settings''"
      using assms(2) apply_globals_error by (simp add: parse_conf_files_def)
    then show ?thesis using assms(1) by (simp add: is_id_mismatch_def)
  qed
qed

text \<open>
  Claim C2. A setting line whose ID segment is neither the wildcard nor the ID of the
  last declaration should end the parse with the configuration error that names the
  line number and the file. Two inputs show where the parser departs from that. When no
  declaration line came before, the comparison reads the unassigned variable
  \<^verbatim>\<open>_id\<close> and the parse ends with UnboundLocalError, not with the configuration error.
  After a declaration the configuration error is raised and carries the file name, but
  its line number is the index \<^verbatim>\<open>enumerate\<close> counts from zero: the second line of the
  file is reported as line 1.
\<close>

theorem setting_id_mismatch_failing_inputs:
  "parse_conf_files [(''ugr.conf'', [''locplugin.s1.s3.pub_key: k''])] = Inl (UnboundLocalError ''_id'') \<and>
   parse_conf_files
     [(''ugr.conf'',
        [''glb.locplugin[]: /usr/lib64/ugr/libugrlocplugin_s3.so s1 15 s3://host/bucket'',
         ''locplugin.s2.s3.pub_key: k''])] =
     Inl (DSSConfigFileErrorIDMismatch ''s1'' ''SettingIDMismatch'' 1 ''ugr.conf''
            ''locplugin.s2.s3.pub_key'')"
  by code_simp

text \<open>
  Claim C3. Every global setting should be present on each share that does not define
  it locally. A share that is declared and has no local setting at all has no
  \<^verbatim>\<open>plugin_settings\<close> dictionary when the global settings are applied, and the parse
  ends with KeyError instead of storing the global setting on the share.
\<close>

theorem global_fill_failing_input:
  "parse_conf_files
     [(''ugr.conf'',
        [''glb.locplugin[]: /usr/lib64/ugr/libugrlocplugin_dav.so d1 15 davs://host/path'',
         ''locplugin.*.cli_certificate: /etc/grid-security/cert.pem''])] =
     Inl (KeyError ''plugin_settings'')"
  by code_simp

text \<open>
  Claim C10. When the first setting line with a non-wildcard ID segment is read before
  any declaration line (every earlier line, in this file and in the files before it, is
  a comment, a line without the setting marker or a global setting), the parse ends
  with the undefined-variable error UnboundLocalError for \<^verbatim>\<open>_id\<close>, not with the
  ID-mismatch configuration error. And whenever the parse ends with the ID-mismatch
  configuration error, the input has a declaration line.
\<close>

theorem setting_before_declaration:
  "((\<forall>(f, ls) \<in> set pre. \<forall>l \<in> set ls. is_inert l) \<and> (\<forall>l \<in> set before. is_inert l) \<and>
      is_local_setting l \<longrightarrow>
        parse_conf_files (pre @ (fname, before @ l # after) # rest) =
          Inl (UnboundLocalError ''_id'')) \<and>
   (is_id_mismatch e \<and> parse_conf_files files = Inl e \<longrightarrow>
      (\<exists>(f, ls) \<in> set files. \<exists>x \<in> set ls. is_declaration x))"
proof (intro conjI impI)
  assume "(\<forall>(f, ls) \<in> set pre. \<forall>l \<in> set ls. is_inert l) \<and> (\<forall>l \<in> set before. is_inert l) \<and>
      is_local_setting l"
  then show "parse_conf_files (pre @ (fname, before @ l # after) # rest) =
          Inl (UnboundLocalError ''_id'')"
    by (elim conjE) (rule parse_unbound)
next
  assume "is_id_mismatch e \<and> parse_conf_files files = Inl e"
  then show "\<exists>(f, ls) \<in> set files. \<exists>x \<in> set ls. is_declaration x"
    by (elim conjE) (rule mismatch_needs_declaration)
qed

theorem setting_before_declaration_witness:
  "parse_conf_files
     ([(''a.conf'', [''# endpoints'', ''locplugin.*.conn_timeout: 10''])] @
      (''b.conf'', [''unrelated''] @ ''locplugin.s1.s3.pub_key: k'' #
         [''glb.locplugin[]: /usr/lib64/ugr/libugrlocplugin_s3.so s1 15 s3://host/bucket'']) # []) =
     Inl (UnboundLocalError ''_id'') \<and>
   (\<exists>(f, ls) \<in> set [(''ugr.conf'',
        [''glb.locplugin[]: /usr/lib64/ugr/libugrlocplugin_s3.so s1 15 s3://host/bucket'',
         ''locplugin.s2.s3.pub_key: k''])]. \<exists>x \<in> set ls. is_declaration x)"
proof -
  note t = setting_before_declaration
  have a: "(\<forall>(f, ls) \<in> set [(''a.conf'', [''# endpoints'', ''locplugin.*.conn_timeout: 10''])].
             \<forall>l \<in> set ls. is_inert l) \<and>
           (\<forall>l \<in> set [''unrelated'']. is_inert l) \<and>
           is_local_setting ''locplugin.s1.s3.pub_key: k''"
    by code_simp
  have b: "is_id_mismatch (DSSConfigFileErrorIDMismatch ''s1'' ''SettingIDMismatch'' 1 ''ugr.conf''
            ''locplugin.s2.s3.pub_key'') \<and>
     parse_conf_files [(''ugr.conf'',
        [''glb.locplugin[]: /usr/lib64/ugr/libugrlocplugin_s3.so s1 15 s3://host/bucket'',
         ''locplugin.s2.s3.pub_key: k''])] = Inl (DSSConfigFileErrorIDMismatch ''s1'' ''SettingIDMismatch'' 1 ''ugr.conf''
            ''locplugin.s2.s3.pub_key'')"
    by code_simp
  show ?thesis
    using t [THEN conjunct1, rule_format, OF a] t [THEN conjunct2, rule_format, OF b]
    by (intro conjI)
qed

section \<open>Properties of the DAV and Azure helpers\<close>

lemma rfc4331_zero:
  assumes "parsed response = Some tree"
    and "quota_available_bytes tree = Some (Some at)" "py_int at = Some 0"
    and "quota_used_bytes tree = Some (Some ut)" "py_int ut = Some u"
    and "map_of (plugin_settings sh) ''storagestats.quota'' = Some (PStr ''api'')"
  shows "process_rfc4331_response response sh =
           (Some (DAVZeroQuotaWarning (body response)),
            sh\<lparr>stats := (stats sh)\<lparr>bytesused := PInt u, bytesfree := PInt 0, quota := PInt u\<rparr>\<rparr>)"
  using assms
  by (simp add: process_rfc4331_response_def int_of_text_def int_or_raise_def getitem_def)

lemma int_or_raise_Inl: "int_or_raise t = Inl e \<Longrightarrow> e = ValueError"
  by (auto simp: int_or_raise_def split: option.splits)

lemma int_of_text_Inl: "int_of_text t = Inl e \<Longrightarrow> e = ValueError \<or> e = TypeError"
  by (auto simp: int_of_text_def split: option.splits dest: int_or_raise_Inl)

lemma py_int_of_Inl: "py_int_of v = Inl e \<Longrightarrow> e = ValueError \<or> e = TypeError"
  by (cases v) (auto dest: int_or_raise_Inl)

lemma getitem_Inl: "getitem d k = Inl e \<Longrightarrow> e = KeyError k"
  by (auto simp: getitem_def split: option.splits)

lemma rfc4331_outcome:
  assumes "process_rfc4331_response response sh = (out, sh')"
    and "out = None \<or> (\<exists>d. out = Some (DAVZeroQuotaWarning d))"
  shows "\<exists>tree at ut u f setting.
           parsed response = Some tree \<and>
           quota_used_bytes tree = Some ut \<and> int_of_text ut = Inr u \<and>
           quota_available_bytes tree = Some at \<and>
           getitem (plugin_settings sh) ''storagestats.quota'' = Inr setting \<and>
           (if setting = PStr ''api'' then int_of_text at = Inr f
            else py_int_of setting = Inr (u + f)) \<and>
           stats sh' = (stats sh)\<lparr>bytesused := PInt u, bytesfree := PInt f, quota := PInt (u + f)\<rparr>"
proof -
  have ok: "\<And>e. out = Some e \<Longrightarrow> e \<noteq> ValueError \<and> e \<noteq> TypeError \<and> e \<noteq> AttributeError \<and>
      e \<noteq> XMLSyntaxError \<and> e \<noteq> ErrorDAVQuotaMethod ''UnsupportedMethod'' \<and>
      e \<noteq> KeyError ''storagestats.quota''"
    using assms(2) by auto
  note d = process_rfc4331_response_def
  obtain tree where tree: "parsed response = Some tree"
    using assms(1) ok by (cases "parsed response") (auto simp: d)
  obtain at where at: "quota_available_bytes tree = Some at"
    using assms(1) ok tree by (cases "quota_available_bytes tree") (auto simp: d)
  have atn: "at \<noteq> None"
    using assms(1) ok tree at by (auto simp: d split: if_splits)
  obtain ut where ut: "quota_used_bytes tree = Some ut"
    using assms(1) ok tree at atn by (cases "quota_used_bytes tree") (auto simp: d)
  obtain u where u: "int_of_text ut = Inr u"
    using assms(1) ok tree at atn ut
    by (cases "int_of_text ut") (auto simp: d dest: int_of_text_Inl)
  obtain fr where fr: "int_of_text at = Inr fr"
    using assms(1) ok tree at atn ut u
    by (cases "int_of_text at") (auto simp: d Let_def dest: int_of_text_Inl)
  obtain setting where setting: "getitem (plugin_settings sh) ''storagestats.quota'' = Inr setting"
    using assms(1) ok tree at atn ut u fr
    by (cases "getitem (plugin_settings sh) ''storagestats.quota''")
      (auto simp: d Let_def dest: getitem_Inl)
  show ?thesis
  proof (cases "setting = PStr ''api''")
    case True
    then have "stats sh' =
        (stats sh)\<lparr>bytesused := PInt u, bytesfree := PInt fr, quota := PInt (u + fr)\<rparr>"
      using assms(1) tree at atn ut u fr setting by (auto simp: d Let_def split: if_splits)
    then show ?thesis using tree at ut u fr setting True by auto
  next
    case False
    obtain q where q: "py_int_of setting = Inr q"
      using assms(1) ok tree at atn ut u fr setting False
      by (cases "py_int_of setting") (auto simp: d Let_def dest: py_int_of_Inl)
    have "stats sh' =
        (stats sh)\<lparr>bytesused := PInt u, bytesfree := PInt (q - u), quota := PInt (u + (q - u))\<rparr>"
      using assms(1) tree at atn ut u fr setting False q by (auto simp: d Let_def)
    moreover have "py_int_of setting = Inr (u + (q - u))" using q by simp
    ultimately show ?thesis using tree at ut u setting False
      by (intro exI [of _ tree] exI [of _ at] exI [of _ ut] exI [of _ u] exI [of _ "q - u"]
          exI [of _ setting]) simp
  qed
qed

lemma list_blobs_outcome:
  assumes "list_blobs service container sh = (None, sh')"
  shows "\<exists>lengths q free.
           service sh = Blobs lengths \<and>
           getitem (plugin_settings sh) ''storagestats.quota'' = Inr q \<and>
           py_sub q (PInt (sum_list lengths)) = Inr free \<and>
           stats sh' = (stats sh)\<lparr>bytesused := PInt (sum_list lengths), quota := q,
                                   bytesfree := free, filecount := PInt (int (length lengths))\<rparr>"
  using assms
  by (auto simp: list_blobs_def Let_def
      split: option.splits sum.splits if_splits pyval.splits azure_result.splits)

text \<open>
  Claim C4, as stated: for an RFC4331 response whose quota-available-bytes is 0, with
  the quota setting "api", the warning is recorded, \<^verbatim>\<open>bytesfree\<close> stays 0 and
  \<^verbatim>\<open>quota\<close> is left at the value it had. The last part fails: with 500 bytes used and
  the quota at its initial 1000^4, the quota is 500 afterwards.
\<close>

theorem rfc4331_zero_quota_counterexample:
  "\<not> (let sh = \<lparr>share_id = ''d1'', plugin_settings = [(''storagestats.quota'', PStr ''api'')],
                 stats = \<lparr>bytesused = PInt 0, bytesfree = PInt 0, filecount = PInt 0,
                          quota = PInt (1000 ^ 4), starttime = 0, endtime = 0\<rparr>\<rparr>;
            r = process_rfc4331_response
                  \<lparr>body = ''<multistatus/>'',
                   parsed = Some \<lparr>quota_available_bytes = Some (Some ''0''),
                                  quota_used_bytes = Some (Some ''500'')\<rparr>\<rparr> sh
        in fst r = Some (DAVZeroQuotaWarning ''<multistatus/>'') \<and>
           bytesfree (stats (snd r)) = PInt 0 \<and>
           quota (stats (snd r)) = quota (stats sh))"
  by code_simp

text \<open>
  Claim C4, amended. For an RFC4331 response whose quota-available-bytes reads as 0,
  with the quota setting "api", \<^verbatim>\<open>process_rfc4331_response\<close> raises the
  ambiguous-quota warning \<^verbatim>\<open>DAVZeroQuotaWarning\<close> carrying the response body, and leaves
  \<^verbatim>\<open>bytesused\<close> at the reported quota-used-bytes, \<^verbatim>\<open>bytesfree\<close> at 0 and \<^verbatim>\<open>quota\<close> at
  bytesused + bytesfree, that is at \<^verbatim>\<open>bytesused\<close>: the quota is assigned before the
  warning is raised, whatever it was before.
\<close>

theorem rfc4331_zero_quota:
  "parsed response = Some tree \<and>
   quota_available_bytes tree = Some (Some at) \<and> py_int at = Some 0 \<and>
   quota_used_bytes tree = Some (Some ut) \<and> py_int ut = Some u \<and>
   map_of (plugin_settings sh) ''storagestats.quota'' = Some (PStr ''api'') \<longrightarrow>
   process_rfc4331_response response sh =
     (Some (DAVZeroQuotaWarning (body response)),
      sh\<lparr>stats := (stats sh)\<lparr>bytesused := PInt u, bytesfree := PInt 0, quota := PInt u\<rparr>\<rparr>)"
  by (intro impI, elim conjE) (rule rfc4331_zero)

theorem rfc4331_zero_quota_witness:
  "process_rfc4331_response
     \<lparr>body = ''<multistatus/>'',
      parsed = Some \<lparr>quota_available_bytes = Some (Some ''0''),
                     quota_used_bytes = Some (Some ''500'')\<rparr>\<rparr>
     \<lparr>share_id = ''d1'', plugin_settings = [(''storagestats.quota'', PStr ''api'')],
      stats = \<lparr>bytesused = PInt 0, bytesfree = PInt 0, filecount = PInt 0,
               quota = PInt (1000 ^ 4), starttime = 0, endtime = 0\<rparr>\<rparr> =
   (Some (DAVZeroQuotaWarning ''<multistatus/>''),
    \<lparr>share_id = ''d1'', plugin_settings = [(''storagestats.quota'', PStr ''api'')],
     stats = \<lparr>bytesused = PInt 500, bytesfree = PInt 0, filecount = PInt 0,
              quota = PInt 500, starttime = 0, endtime = 0\<rparr>\<rparr>)"
proof -
  let ?tree = "\<lparr>quota_available_bytes = Some (Some ''0''), quota_used_bytes = Some (Some ''500'')\<rparr>"
  let ?resp = "\<lparr>body = ''<multistatus/>'', parsed = Some ?tree\<rparr>"
  let ?sh = "\<lparr>share_id = ''d1'', plugin_settings = [(''storagestats.quota'', PStr ''api'')],
      stats = \<lparr>bytesused = PInt 0, bytesfree = PInt 0, filecount = PInt 0,
               quota = PInt (1000 ^ 4), starttime = 0, endtime = 0\<rparr>\<rparr>"
  have h: "parsed ?resp = Some ?tree \<and>
      quota_available_bytes ?tree = Some (Some ''0'') \<and> py_int ''0'' = Some 0 \<and>
      quota_used_bytes ?tree = Some (Some ''500'') \<and> py_int ''500'' = Some 500 \<and>
      map_of (plugin_settings ?sh) ''storagestats.quota'' = Some (PStr ''api'')"
    by code_simp
  show ?thesis
    using rfc4331_zero_quota [of ?resp ?tree "''0''" "''500''" 500 ?sh, rule_format, OF h]
    by simp
qed

text \<open>
  Claim C5. A response that lacks the quota fields should raise the unsupported-method
  error and nothing else. When the body has no quota-available-bytes element,
  \<^verbatim>\<open>find\<close> returns \<^verbatim>\<open>None\<close> and reading \<^verbatim>\<open>.text\<close> of it is an AttributeError, raised
  before the test meant to detect the unsupported method; the same happens for a body
  with quota-available-bytes and no quota-used-bytes element. Only an element that is
  present and has no text raises \<^verbatim>\<open>ErrorDAVQuotaMethod\<close>.
\<close>

theorem rfc4331_missing_fields_failing_input:
  "fst (process_rfc4331_response
          \<lparr>body = ''<multistatus/>'',
           parsed = Some \<lparr>quota_available_bytes = None, quota_used_bytes = None\<rparr>\<rparr> sh) =
     Some AttributeError \<and>
   fst (process_rfc4331_response
          \<lparr>body = ''<multistatus/>'',
           parsed = Some \<lparr>quota_available_bytes = Some (Some ''1500''),
                          quota_used_bytes = None\<rparr>\<rparr> sh) =
     Some AttributeError \<and>
   fst (process_rfc4331_response
          \<lparr>body = ''<multistatus/>'',
           parsed = Some \<lparr>quota_available_bytes = Some None, quota_used_bytes = None\<rparr>\<rparr> sh) =
     Some (ErrorDAVQuotaMethod ''UnsupportedMethod'')"
  by (simp add: process_rfc4331_response_def)

text \<open>
  Claim C6. Whenever \<^verbatim>\<open>process_rfc4331_response\<close> returns or raises only the
  zero-quota warning, the statistics hold integers with quota = bytesused + bytesfree,
  \<^verbatim>\<open>bytesused\<close> being the reported quota-used-bytes, and exactly one derivation was
  used, chosen by the quota setting: for the setting "api" \<^verbatim>\<open>bytesfree\<close> is the
  reported quota-available-bytes and the quota is their sum; for any other setting the
  quota is the configured number and \<^verbatim>\<open>bytesfree\<close> is quota - bytesused. Whenever
  \<^verbatim>\<open>list_blobs\<close> returns, the quota is the configured value, \<^verbatim>\<open>bytesused\<close> is the
  sum of the blobs' lengths and \<^verbatim>\<open>bytesfree\<close> is quota - bytesused.
\<close>

theorem quota_derivation:
  "(process_rfc4331_response response sh = (out, sh') \<and>
      (out = None \<or> (\<exists>d. out = Some (DAVZeroQuotaWarning d))) \<longrightarrow>
      (\<exists>tree at ut u f setting.
         parsed response = Some tree \<and>
         quota_used_bytes tree = Some ut \<and> int_of_text ut = Inr u \<and>
         quota_available_bytes tree = Some at \<and>
         getitem (plugin_settings sh) ''storagestats.quota'' = Inr setting \<and>
         (if setting = PStr ''api'' then int_of_text at = Inr f
          else py_int_of setting = Inr (u + f)) \<and>
         stats sh' =
           (stats sh)\<lparr>bytesused := PInt u, bytesfree := PInt f, quota := PInt (u + f)\<rparr>)) \<and>
   (list_blobs service container sh = (None, sh') \<longrightarrow>
      (\<exists>lengths q free.
         service sh = Blobs lengths \<and>
         getitem (plugin_settings sh) ''storagestats.quota'' = Inr q \<and>
         py_sub q (PInt (sum_list lengths)) = Inr free \<and>
         stats sh' =
           (stats sh)\<lparr>bytesused := PInt (sum_list lengths), quota := q, bytesfree := free,
                       filecount := PInt (int (length lengths))\<rparr>))"
proof (intro conjI impI)
  assume "process_rfc4331_response response sh = (out, sh') \<and>
      (out = None \<or> (\<exists>d. out = Some (DAVZeroQuotaWarning d)))"
  then show "\<exists>tree at ut u f setting.
         parsed response = Some tree \<and>
         quota_used_bytes tree = Some ut \<and> int_of_text ut = Inr u \<and>
         quota_available_bytes tree = Some at \<and>
         getitem (plugin_settings sh) ''storagestats.quota'' = Inr setting \<and>
         (if setting = PStr ''api'' then int_of_text at = Inr f
          else py_int_of setting = Inr (u + f)) \<and>
         stats sh' =
           (stats sh)\<lparr>bytesused := PInt u, bytesfree := PInt f, quota := PInt (u + f)\<rparr>"
    by (elim conjE) (rule rfc4331_outcome)
next
  assume "list_blobs service container sh = (None, sh')"
  then show "\<exists>lengths q free.
         service sh = Blobs lengths \<and>
         getitem (plugin_settings sh) ''storagestats.quota'' = Inr q \<and>
         py_sub q (PInt (sum_list lengths)) = Inr free \<and>
         stats sh' =
           (stats sh)\<lparr>bytesused := PInt (sum_list lengths), quota := q, bytesfree := free,
                       filecount := PInt (int (length lengths))\<rparr>"
    by (rule list_blobs_outcome)
qed

theorem quota_derivation_witness:
  "(\<exists>tree at ut u f setting.
      parsed \<lparr>body = ''<multistatus/>'',
              parsed = Some \<lparr>quota_available_bytes = Some (Some ''1500''),
                             quota_used_bytes = Some (Some ''500'')\<rparr>\<rparr> = Some tree \<and>
      quota_used_bytes tree = Some ut \<and> int_of_text ut = Inr u \<and>
      quota_available_bytes tree = Some at \<and>
      getitem [(''storagestats.quota'', PStr ''1000'')] ''storagestats.quota'' = Inr setting \<and>
      (if setting = PStr ''api'' then int_of_text at = Inr f
       else py_int_of setting = Inr (u + f)) \<and>
      \<lparr>bytesused = PInt 500, bytesfree = PInt 500, filecount = PInt 0, quota = PInt 1000,
       starttime = 0, endtime = 0\<rparr> =
        \<lparr>bytesused = PInt 0, bytesfree = PInt 0, filecount = PInt 0, quota = PInt (1000 ^ 4),
         starttime = 0, endtime = 0\<rparr>
        \<lparr>bytesused := PInt u, bytesfree := PInt f, quota := PInt (u + f)\<rparr>) \<and>
   (\<exists>lengths q free.
      Blobs [100, 200] = Blobs lengths \<and>
      getitem [(''azure.key'', PStr ''k''), (''storagestats.api'', PStr ''generic''),
               (''conn_timeout'', PStr ''10''), (''storagestats.quota'', PInt 1000)]
        ''storagestats.quota'' = Inr q \<and>
      py_sub q (PInt (sum_list lengths)) = Inr free \<and>
      \<lparr>bytesused = PInt 300, bytesfree = PInt 700, filecount = PInt 2, quota = PInt 1000,
       starttime = 0, endtime = 0\<rparr> =
        \<lparr>bytesused = PInt 0, bytesfree = PInt 0, filecount = PInt 0, quota = PInt (1000 ^ 4),
         starttime = 0, endtime = 0\<rparr>
        \<lparr>bytesused := PInt (sum_list lengths), quota := q, bytesfree := free,
         filecount := PInt (int (length lengths))\<rparr>)"
proof -
  let ?st0 = "\<lparr>bytesused = PInt 0, bytesfree = PInt 0, filecount = PInt 0,
               quota = PInt (1000 ^ 4), starttime = 0, endtime = 0\<rparr>"
  let ?resp = "\<lparr>body = ''<multistatus/>'',
              parsed = Some \<lparr>quota_available_bytes = Some (Some ''1500''),
                             quota_used_bytes = Some (Some ''500'')\<rparr>\<rparr>"
  let ?sh = "\<lparr>share_id = ''d1'', plugin_settings = [(''storagestats.quota'', PStr ''1000'')],
             stats = ?st0\<rparr>"
  let ?sh' = "\<lparr>share_id = ''d1'', plugin_settings = [(''storagestats.quota'', PStr ''1000'')],
             stats = \<lparr>bytesused = PInt 500, bytesfree = PInt 500, filecount = PInt 0,
                      quota = PInt 1000, starttime = 0, endtime = 0\<rparr>\<rparr>"
  let ?az = "\<lparr>share_id = ''a1'',
             plugin_settings = [(''azure.key'', PStr ''k''), (''storagestats.api'', PStr ''generic''),
               (''conn_timeout'', PStr ''10''), (''storagestats.quota'', PInt 1000)],
             stats = ?st0\<rparr>"
  let ?az' = "\<lparr>share_id = ''a1'',
             plugin_settings = [(''azure.key'', PStr ''k''), (''storagestats.api'', PStr ''generic''),
               (''conn_timeout'', PStr ''10''), (''storagestats.quota'', PInt 1000)],
             stats = \<lparr>bytesused = PInt 300, bytesfree = PInt 700, filecount = PInt 2,
                      quota = PInt 1000, starttime = 0, endtime = 0\<rparr>\<rparr>"
  have "process_rfc4331_response ?resp ?sh = (None, ?sh')"
    by code_simp
  then have h1: "process_rfc4331_response ?resp ?sh = (None, ?sh') \<and>
      (None = None \<or> (\<exists>d. None = Some (DAVZeroQuotaWarning d)))"
    by simp
  have h2: "list_blobs (\<lambda>_. Blobs [100, 200]) ''container'' ?az = (None, ?az')"
    by code_simp
  note t = quota_derivation
  have 1: "\<exists>tree at ut u f setting.
      parsed ?resp = Some tree \<and>
      quota_used_bytes tree = Some ut \<and> int_of_text ut = Inr u \<and>
      quota_available_bytes tree = Some at \<and>
      getitem (plugin_settings ?sh) ''storagestats.quota'' = Inr setting \<and>
      (if setting = PStr ''api'' then int_of_text at = Inr f
       else py_int_of setting = Inr (u + f)) \<and>
      stats ?sh' = (stats ?sh)\<lparr>bytesused := PInt u, bytesfree := PInt f, quota := PInt (u + f)\<rparr>"
    by (rule t [THEN conjunct1, rule_format, OF h1])
  have 2: "\<exists>lengths q free.
      (\<lambda>_. Blobs [100, 200]) ?az = Blobs lengths \<and>
      getitem (plugin_settings ?az) ''storagestats.quota'' = Inr q \<and>
      py_sub q (PInt (sum_list lengths)) = Inr free \<and>
      stats ?az' = (stats ?az)\<lparr>bytesused := PInt (sum_list lengths), quota := q, bytesfree := free,
         filecount := PInt (int (length lengths))\<rparr>"
    by (rule t [THEN conjunct2, rule_format, OF h2])
  from 1 2 show ?thesis by simp
qed

section \<open>Properties of the generic S3 listing\<close>

lemma convert_1TB: "convert_size_to_bytes ''1TB'' = Inr (1000 ^ 4)"
  by (simp add: convert_eval)

lemma list_loop_serves:
  "serves provider m pages \<Longrightarrow>
     list_loop provider m tb tf =
       Some (Inr (tb + sum_list (concat pages), tf + int (length (concat pages))))"
proof (induction provider m pages arbitrary: tb tf rule: serves.induct)
  case (1 provider m)
  then show ?case by simp
next
  case (2 provider m sizes)
  then show ?case by (subst list_loop.simps) (simp add: list_step_def)
next
  case (3 provider m sizes v va)
  then obtain mk where mk: "provider m = Page (Some sizes) (Some mk)"
      "serves provider (Some mk) (v # va)"
    by (auto split: list_result.splits option.splits)
  show ?case
    using "3.IH" [OF mk(1) refl refl, of "tb + sum_list sizes" "tf + int (length sizes)"] mk
    by (subst list_loop.simps) (simp add: list_step_def algebra_simps)
qed

lemma finish_bytesused:
  "s_bytesused (o_stats (snd (s3_generic_finish tb tf obj))) = PInt tb"
  by (auto simp: s3_generic_finish_def or_raise_def Let_def split: sum.splits)

lemma finish_files:
  "getitem (o_plugin_options obj) ''quota'' = Inr q \<Longrightarrow>
     s_files (o_stats (snd (s3_generic_finish tb tf obj))) = PInt tf"
  by (auto simp: s3_generic_finish_def or_raise_def Let_def convert_1TB split: sum.splits)

lemma finish_out:
  "fst (s3_generic_finish tb tf obj) \<in>
     {None, Some quota_warning, Some TypeError, Some (KeyError ''quota'')}"
  by (auto simp: s3_generic_finish_def or_raise_def Let_def convert_1TB getitem_def
      split: sum.splits option.splits pyval.splits elim!: py_sub.elims)

lemma s3_generic_collects:
  assumes "o_class obj = S3StorageStats"
    and "getitem (o_plugin_options obj) ''s3.api'' = Inr api" "py_lower api = Inr ''generic''"
    and "fst (s3_client_args obj) = None"
    and "serves (w_list_objects w obj) None pages"
    and "getitem (o_plugin_options obj) ''quota'' = Inr q"
  shows "\<exists>out obj'. get_storagestats w obj = Some (out, obj') \<and>
           s_bytesused (o_stats obj') = PInt (sum_list (concat pages)) \<and>
           s_files (o_stats obj') = PInt (int (length (concat pages))) \<and>
           (out = None \<or> out = Some quota_warning \<or> out = Some TypeError)"
proof -
  let ?tb = "sum_list (concat pages)" and ?tf = "int (length (concat pages))"
  let ?r = "s3_generic_finish ?tb ?tf obj"
  have loop: "list_loop (w_list_objects w obj) None 0 0 = Some (Inr (?tb, ?tf))"
    using list_loop_serves [OF assms(5), of 0 0] by simp
  have "s3_generic w obj = Some ?r"
    using assms(4) loop by (cases "s3_client_args obj") (simp add: s3_generic_def)
  then have g: "get_storagestats w obj = Some (fst ?r, snd ?r)"
    using assms(1,2,3) by (simp add: get_storagestats_def)
  have "fst ?r \<noteq> Some (KeyError ''quota'')"
    using assms(6) by (auto simp: s3_generic_finish_def or_raise_def Let_def convert_1TB
        quota_warning_def ugr_warning_def split: sum.splits elim!: py_sub.elims)
  then have "fst ?r = None \<or> fst ?r = Some quota_warning \<or> fst ?r = Some TypeError"
    using finish_out [of ?tb ?tf obj] by auto
  then show ?thesis
    using g finish_bytesused [of ?tb ?tf obj] finish_files [OF assms(6), of ?tb ?tf] by blast
qed


text \<open>
  Claim C9. The loop of the generic S3 strategy follows the markers: when the provider
  serves a sequence of pages, each but the last with a \<^verbatim>\<open>NextMarker\<close>, the loop
  returns, and its totals are the sum of the sizes of all objects of all pages and the
  number of these objects. For an S3 object whose \<^verbatim>\<open>s3.api\<close> is "generic" in any
  letter case, whose client arguments can be read and which has a \<^verbatim>\<open>quota\<close> option,
  \<^verbatim>\<open>get_storagestats\<close> then returns or raises (the no-quota warning when the quota is
  "api", a TypeError when the quota is not a number) with \<^verbatim>\<open>bytesused\<close> the sum of the
  sizes and \<^verbatim>\<open>files\<close> the number of objects. With one page of two objects of 100 and
  200 bytes and no marker, \<^verbatim>\<open>bytesused\<close> is 300 and \<^verbatim>\<open>files\<close> is 2.
\<close>

theorem s3_generic_listing:
  "(serves provider m pages \<longrightarrow>
      list_loop provider m tb tf =
        Some (Inr (tb + sum_list (concat pages), tf + int (length (concat pages))))) \<and>
   (o_class obj = S3StorageStats \<and>
    getitem (o_plugin_options obj) ''s3.api'' = Inr api \<and> py_lower api = Inr ''generic'' \<and>
    fst (s3_client_args obj) = None \<and>
    serves (w_list_objects w obj) None pages \<and>
    getitem (o_plugin_options obj) ''quota'' = Inr q \<longrightarrow>
      (\<exists>out obj'. get_storagestats w obj = Some (out, obj') \<and>
         s_bytesused (o_stats obj') = PInt (sum_list (concat pages)) \<and>
         s_files (o_stats obj') = PInt (int (length (concat pages))) \<and>
         (out = None \<or> out = Some quota_warning \<or> out = Some TypeError))) \<and>
   (o_class obj = S3StorageStats \<and>
    getitem (o_plugin_options obj) ''s3.api'' = Inr api \<and> py_lower api = Inr ''generic'' \<and>
    fst (s3_client_args obj) = None \<and>
    w_list_objects w obj None = Page (Some [100, 200]) None \<and>
    getitem (o_plugin_options obj) ''quota'' = Inr q \<longrightarrow>
      (\<exists>out obj'. get_storagestats w obj = Some (out, obj') \<and>
         s_bytesused (o_stats obj') = PInt 300 \<and> s_files (o_stats obj') = PInt 2))"
proof (intro conjI impI)
  assume "serves provider m pages"
  then show "list_loop provider m tb tf =
        Some (Inr (tb + sum_list (concat pages), tf + int (length (concat pages))))"
    by (rule list_loop_serves)
next
  assume "o_class obj = S3StorageStats \<and>
    getitem (o_plugin_options obj) ''s3.api'' = Inr api \<and> py_lower api = Inr ''generic'' \<and>
    fst (s3_client_args obj) = None \<and>
    serves (w_list_objects w obj) None pages \<and>
    getitem (o_plugin_options obj) ''quota'' = Inr q"
  then show "\<exists>out obj'. get_storagestats w obj = Some (out, obj') \<and>
         s_bytesused (o_stats obj') = PInt (sum_list (concat pages)) \<and>
         s_files (o_stats obj') = PInt (int (length (concat pages))) \<and>
         (out = None \<or> out = Some quota_warning \<or> out = Some TypeError)"
    by (elim conjE) (rule s3_generic_collects)
next
  assume a: "o_class obj = S3StorageStats \<and>
    getitem (o_plugin_options obj) ''s3.api'' = Inr api \<and> py_lower api = Inr ''generic'' \<and>
    fst (s3_client_args obj) = None \<and>
    w_list_objects w obj None = Page (Some [100, 200]) None \<and>
    getitem (o_plugin_options obj) ''quota'' = Inr q"
  then have "serves (w_list_objects w obj) None [[100, 200]]" by simp
  with a have "\<exists>out obj'. get_storagestats w obj = Some (out, obj') \<and>
         s_bytesused (o_stats obj') = PInt (sum_list (concat [[100, 200]])) \<and>
         s_files (o_stats obj') = PInt (int (length (concat [[100, 200 :: int]]))) \<and>
         (out = None \<or> out = Some quota_warning \<or> out = Some TypeError)"
    by (elim conjE) (rule s3_generic_collects)
  then show "\<exists>out obj'. get_storagestats w obj = Some (out, obj') \<and>
         s_bytesused (o_stats obj') = PInt 300 \<and> s_files (o_stats obj') = PInt 2"
    by auto
qed


theorem s3_generic_listing_witness:
  "list_loop (\<lambda>m. if m = None then Page (Some [100, 200]) (Some ''key2'')
                   else Page (Some [50]) None) None 0 0 = Some (Inr (350, 3)) \<and>
   (\<exists>obj out obj'.
      get_endpoint example_urlsplit 1500000000 (snd (example_s3_share ''1kb'')) = Inr obj \<and>
      get_storagestats
        (example_world\<lparr>w_list_objects :=
           \<lambda>obj m. if m = None then Page (Some [100, 200]) (Some ''key2'')
                    else Page (Some [50]) None\<rparr>) obj = Some (out, obj') \<and>
      s_bytesused (o_stats obj') = PInt 350 \<and> s_files (o_stats obj') = PInt 3) \<and>
   (\<exists>obj out obj'.
      get_endpoint example_urlsplit 1500000000 (snd (example_s3_share ''1kb'')) = Inr obj \<and>
      get_storagestats example_world obj = Some (out, obj') \<and>
      s_bytesused (o_stats obj') = PInt 300 \<and> s_files (o_stats obj') = PInt 2)"
proof -
  let ?prov = "\<lambda>m :: string option. if m = None then Page (Some [100, 200]) (Some ''key2'')
                   else Page (Some [50]) None"
  let ?w2 = "example_world\<lparr>w_list_objects := \<lambda>obj :: ugr_obj. ?prov\<rparr>"
  let ?ep = "get_endpoint example_urlsplit 1500000000 (snd (example_s3_share ''1kb''))"
  note t = s3_generic_listing
  have s: "serves ?prov None [[100, 200], [50]]" by simp
  have 1: "list_loop ?prov None 0 0 =
      Some (Inr (0 + sum_list (concat [[100, 200], [50]]),
                 0 + int (length (concat [[100, 200], [50 :: int]]))))"
    by (rule t [THEN conjunct1, rule_format, OF s])
  have "case ?ep of Inl _ \<Rightarrow> False
        | Inr obj \<Rightarrow> o_class obj = S3StorageStats \<and>
            getitem (o_plugin_options obj) ''s3.api'' = Inr (PStr ''generic'') \<and>
            fst (s3_client_args obj) = None \<and>
            getitem (o_plugin_options obj) ''quota'' = Inr (PInt 1000)"
    by code_simp
  then obtain obj where ep: "?ep = Inr obj" and obj: "o_class obj = S3StorageStats"
      "getitem (o_plugin_options obj) ''s3.api'' = Inr (PStr ''generic'')"
      "fst (s3_client_args obj) = None"
      "getitem (o_plugin_options obj) ''quota'' = Inr (PInt 1000)"
    by (auto split: sum.splits)
  have l: "py_lower (PStr ''generic'') = Inr ''generic''" by code_simp
  have s2: "serves (w_list_objects ?w2 obj) None [[100, 200], [50]]" by simp
  have p3: "w_list_objects example_world obj None = Page (Some [100, 200]) None"
    by (simp add: example_world_def)
  have h2: "o_class obj = S3StorageStats \<and>
      getitem (o_plugin_options obj) ''s3.api'' = Inr (PStr ''generic'') \<and>
      py_lower (PStr ''generic'') = Inr ''generic'' \<and>
      fst (s3_client_args obj) = None \<and>
      serves (w_list_objects ?w2 obj) None [[100, 200], [50]] \<and>
      getitem (o_plugin_options obj) ''quota'' = Inr (PInt 1000)"
    using obj l s2 by (intro conjI)
  have h3: "o_class obj = S3StorageStats \<and>
      getitem (o_plugin_options obj) ''s3.api'' = Inr (PStr ''generic'') \<and>
      py_lower (PStr ''generic'') = Inr ''generic'' \<and>
      fst (s3_client_args obj) = None \<and>
      w_list_objects example_world obj None = Page (Some [100, 200]) None \<and>
      getitem (o_plugin_options obj) ''quota'' = Inr (PInt 1000)"
    using obj l p3 by (intro conjI)
  have 2: "\<exists>out obj'. get_storagestats ?w2 obj = Some (out, obj') \<and>
         s_bytesused (o_stats obj') = PInt (sum_list (concat [[100, 200], [50]])) \<and>
         s_files (o_stats obj') = PInt (int (length (concat [[100, 200], [50 :: int]]))) \<and>
         (out = None \<or> out = Some quota_warning \<or> out = Some TypeError)"
    by (rule t [THEN conjunct2, THEN conjunct1, rule_format, OF h2])
  have 3: "\<exists>out obj'. get_storagestats example_world obj = Some (out, obj') \<and>
         s_bytesused (o_stats obj') = PInt 300 \<and> s_files (o_stats obj') = PInt 2"
    by (rule t [THEN conjunct2, THEN conjunct2, rule_format, OF h3])
  from 1 have r1: "list_loop ?prov None 0 0 = Some (Inr (350, 3))" by simp
  from 2 have r2: "\<exists>out obj'. get_storagestats ?w2 obj = Some (out, obj') \<and>
         s_bytesused (o_stats obj') = PInt 350 \<and> s_files (o_stats obj') = PInt 3"
    by auto
  show ?thesis using r1 r2 3 ep by blast
qed


section \<open>Properties of \<^verbatim>\<open>validate_plugin_options\<close>\<close>



















lemma example_dav_construction:
  "get_endpoint example_urlsplit 1500000000 (snd (example_dav_share settings)) =
     validate_in_init (example_dav_obj settings)"
  by (simp add: get_endpoint_def factory_def construct_def DAVStorageStats_init_def
      StorageStats_init_def example_dav_share_def example_dav_obj_def opt_or_keyerror_def
      example_urlsplit_def split_sep_def split_sep_aux.simps validate_schema_def Let_def)






section \<open>Properties of the main loop\<close>



















end
